theory Spec2Isabelle
  imports Complex_Main "HOL-Library.Multiset"
begin

section \<open>JavaScript values\<close>

text \<open>
  Operation parameters, step outputs and style values are untyped (\<open>any\<close>) in the
  source. They are modelled by the JSON-like datatype \<open>json\<close>. Numbers are exact
  rationals (every finite double is one); the only non-finite number the modelled code
  can produce is the \<open>NaN\<close> of \<open>parseInt\<close>, which lives in \<open>jsnum\<close>.
  Strings are lists of 8-bit characters, read as code units below 256.
\<close>

datatype json =
    JUndefined
  | JNull
  | JBool bool
  | JNum rat
  | JStr string
  | JArr "json list"
  | JObj "(string \<times> json) list"

datatype jsnum = Num rat | NaN

text \<open>
  The error classes of \<open>operation-types.ts\<close>, plus the runtime's own. \<open>Unmodelled\<close> is
  not an error of the program: it marks the two places where the source applies an
  implicit coercion to a value that is not a number (arithmetic and \<open><\<close> on \<open>any\<close>),
  which the model does not follow. No theorem below draws a conclusion from it.
\<close>

datatype error =
    ValidationError string
  | APIError string
  | ReferenceError string
  | FileSystemError string
  | TypeError string
  | Error string
  | Unmodelled

fun error_message :: "error \<Rightarrow> string" where
  "error_message (ValidationError m) = m"
| "error_message (APIError m) = m"
| "error_message (ReferenceError m) = m"
| "error_message (FileSystemError m) = m"
| "error_message (TypeError m) = m"
| "error_message (Error m) = m"
| "error_message Unmodelled = []"

text \<open>Truthiness, as \<open>!x\<close>, \<open>x || y\<close> and \<open>if (x)\<close> read it.\<close>

fun truthy :: "json \<Rightarrow> bool" where
  "truthy JUndefined = False"
| "truthy JNull = False"
| "truthy (JBool b) = b"
| "truthy (JNum q) = (q \<noteq> 0)"
| "truthy (JStr s) = (s \<noteq> [])"
| "truthy (JArr xs) = True"
| "truthy (JObj kvs) = True"

definition jor :: "json \<Rightarrow> json \<Rightarrow> json" where
  "jor x y = (if truthy x then x else y)"

text \<open>Strict equality \<open>===\<close> on numbers: \<open>NaN\<close> equals nothing, itself included.\<close>

fun strict_eq :: "jsnum \<Rightarrow> jsnum \<Rightarrow> bool" where
  "strict_eq (Num p) (Num q) = (p = q)"
| "strict_eq _ _ = False"

text \<open>
  Property access on a parameter object (absent keys read \<open>undefined\<close>), a destructuring
  default (\<open>{x = d}\<close> applies to \<open>undefined\<close> only) and \<open>x ?? d\<close>.
\<close>

definition get_prop :: "json \<Rightarrow> string \<Rightarrow> json" where
  "get_prop params key =
     (case params of
        JObj kvs \<Rightarrow> (case map_of kvs key of Some v \<Rightarrow> v | None \<Rightarrow> JUndefined)
      | _ \<Rightarrow> JUndefined)"

definition dflt :: "json \<Rightarrow> json \<Rightarrow> json" where
  "dflt v d = (if v = JUndefined then d else v)"

definition nullish :: "json \<Rightarrow> json \<Rightarrow> json" where
  "nullish v d = (if v = JUndefined \<or> v = JNull then d else v)"

subsection \<open>Characters and strings\<close>

definition nl :: string where "nl = [CHR 0x0A]"
definition sq :: string where "sq = [CHR 0x27]"
definition dq :: string where "dq = [CHR 0x22]"

text \<open>White space (\<open>\\s\<close>, and what \<open>parseInt\<close> skips) among the code units below 256.\<close>

definition is_ws :: "char \<Rightarrow> bool" where
  "is_ws c = (of_char c \<in> {9, 10, 11, 12, 13, 32, 160 :: nat})"

definition lower_char :: "char \<Rightarrow> char" where
  "lower_char c =
     (let n = (of_char c :: nat) in
      if (65 \<le> n \<and> n \<le> 90) \<or> (192 \<le> n \<and> n \<le> 222 \<and> n \<noteq> 215) then char_of (n + 32) else c)"

definition toLowerCase :: "string \<Rightarrow> string" where
  "toLowerCase s = map lower_char s"

text \<open>\<open>s.replace(/\\s+/g, '+')\<close>: every maximal run of white space becomes one \<open>+\<close>.\<close>

fun replace_ws_from :: "bool \<Rightarrow> string \<Rightarrow> string" where
  "replace_ws_from in_run [] = []"
| "replace_ws_from in_run (c # cs) =
     (if is_ws c then (if in_run then [] else ''+'') @ replace_ws_from True cs
      else c # replace_ws_from False cs)"

definition replace_ws :: "string \<Rightarrow> string" where
  "replace_ws s = replace_ws_from False s"

text \<open>\<open>s.replace(/_/g, '-')\<close>.\<close>

definition underscores_to_hyphens :: "string \<Rightarrow> string" where
  "underscores_to_hyphens s = map (\<lambda>c. if c = CHR ''_'' then CHR ''-'' else c) s"

fun join :: "string \<Rightarrow> string list \<Rightarrow> string" where
  "join sep [] = []"
| "join sep [x] = x"
| "join sep (x # y # ys) = x @ sep @ join sep (y # ys)"

subsection \<open>Numbers to strings\<close>

definition digit_char :: "nat \<Rightarrow> char" where
  "digit_char d = char_of (48 + d)"

fun nat_str :: "nat \<Rightarrow> string" where
  "nat_str n = (if n < 10 then [digit_char n] else nat_str (n div 10) @ [digit_char (n mod 10)])"

declare nat_str.simps [simp del]

text \<open>
  The fractional digits of \<open>p / q\<close> (with \<open>p < q\<close>) by long division, at most
  \<open>fuel\<close> of them.
\<close>

fun frac_digits :: "nat \<Rightarrow> nat \<Rightarrow> nat \<Rightarrow> string" where
  "frac_digits 0 p q = []"
| "frac_digits (Suc fuel) p q =
     (if p = 0 then []
      else digit_char ((10 * p) div q) # frac_digits fuel ((10 * p) mod q) q)"

text \<open>
  \<open>String(n)\<close> for a number. It is the runtime's answer on integers below \<open>10^21\<close> and
  on decimal fractions of up to 17 digits; the modelled code is only ever evaluated on
  integers.
\<close>

definition num_str :: "rat \<Rightarrow> string" where
  "num_str x =
     (let (n, d) = quotient_of x;
          m = nat \<bar>n\<bar>;
          q = nat d;
          body = nat_str (m div q) @
                 (if m mod q = 0 then [] else CHR ''.'' # frac_digits 17 (m mod q) q)
      in if n < 0 then CHR ''-'' # body else body)"


fun jsnum_str :: "jsnum \<Rightarrow> string" where
  "jsnum_str (Num q) = num_str q"
| "jsnum_str NaN = ''NaN''"

text \<open>\<open>String(v)\<close>, which is what a template literal applies to an interpolated value.\<close>

fun js_str :: "json \<Rightarrow> string"
  and js_join :: "json list \<Rightarrow> string" where
  "js_str JUndefined = ''undefined''"
| "js_str JNull = ''null''"
| "js_str (JBool b) = (if b then ''true'' else ''false'')"
| "js_str (JNum q) = num_str q"
| "js_str (JStr s) = s"
| "js_str (JArr xs) = js_join xs"
| "js_str (JObj kvs) = ''[object Object]''"
| "js_join [] = []"
| "js_join [x] = (if x = JUndefined \<or> x = JNull then [] else js_str x)"
| "js_join (x # y # ys) =
     (if x = JUndefined \<or> x = JNull then [] else js_str x) @ '','' @ js_join (y # ys)"


section \<open>Theme: colors and fonts\<close>

record Color =
  c_id :: string
  c_name :: string
  c_r :: jsnum
  c_g :: jsnum
  c_b :: jsnum
  c_a :: jsnum

record Font =
  font_id :: string
  font_name :: string
  font_url :: string

record Theme =
  theme_id :: string
  theme_name :: string
  color_palette :: "Color list"
  font_palette :: "Font list"

record rgba =
  rgba_r :: jsnum
  rgba_g :: jsnum
  rgba_b :: jsnum
  rgba_a :: jsnum

text \<open>
  The environment, as far as the modelled code reads it: the clock and the random
  generator behind \<open>generateId\<close> (their base-36 renderings at the \<open>k\<close>-th call), the answer
  of the font service to a \<open>HEAD\<close> request (\<open>False\<close> also when the request throws), the
  directory \<open>path.join(process.cwd(), 'scenes', sceneId)\<close>, and the file system: \<open>None\<close>
  when every write for that scene succeeds, the thrown message otherwise.
\<close>

record env =
  now36 :: "nat \<Rightarrow> string"
  rand36 :: "nat \<Rightarrow> string"
  head_ok :: "string \<Rightarrow> bool"
  scene_dir :: "string \<Rightarrow> string"
  fs_failure :: "string \<Rightarrow> string option"

definition generateId :: "env \<Rightarrow> string \<Rightarrow> nat \<Rightarrow> string" where
  "generateId ev prefix k = prefix @ ''_'' @ now36 ev k @ ''_'' @ rand36 ev k"

subsection \<open>parseInt with radix 16\<close>

definition hex_val :: "char \<Rightarrow> nat option" where
  "hex_val c =
     (let n = (of_char c :: nat) in
      if 48 \<le> n \<and> n \<le> 57 then Some (n - 48)
      else if 97 \<le> n \<and> n \<le> 102 then Some (n - 87)
      else if 65 \<le> n \<and> n \<le> 70 then Some (n - 55)
      else None)"

text \<open>The longest prefix of hexadecimal digits, folded into its value.\<close>

fun hex_prefix :: "nat option \<Rightarrow> string \<Rightarrow> nat option" where
  "hex_prefix acc [] = acc"
| "hex_prefix acc (c # cs) =
     (case hex_val c of
        None \<Rightarrow> acc
      | Some d \<Rightarrow> hex_prefix (Some (16 * (case acc of None \<Rightarrow> 0 | Some v \<Rightarrow> v) + d)) cs)"

definition strip_0x :: "string \<Rightarrow> string" where
  "strip_0x s =
     (case s of
        c0 # c1 # rest \<Rightarrow> if c0 = CHR ''0'' \<and> (c1 = CHR ''x'' \<or> c1 = CHR ''X'') then rest else s
      | _ \<Rightarrow> s)"

definition parseInt16 :: "string \<Rightarrow> jsnum" where
  "parseInt16 s =
     (let t = dropWhile is_ws s;
          neg = (t \<noteq> [] \<and> hd t = CHR ''-'');
          u = (if t \<noteq> [] \<and> (hd t = CHR ''-'' \<or> hd t = CHR ''+'') then tl t else t)
      in case hex_prefix None (strip_0x u) of
           None \<Rightarrow> NaN
         | Some v \<Rightarrow> Num (if neg then - of_nat v else of_nat v))"

definition substring :: "string \<Rightarrow> nat \<Rightarrow> nat \<Rightarrow> string" where
  "substring s i j = take (j - i) (drop i s)"

fun jsnum_div :: "jsnum \<Rightarrow> rat \<Rightarrow> jsnum" where
  "jsnum_div (Num p) q = Num (p / q)"
| "jsnum_div NaN q = NaN"

subsection \<open>hexToRGBA and ensureColorInTheme\<close>

definition hexToRGBA :: "string \<Rightarrow> error + rgba" where
  "hexToRGBA hex0 =
     (let hex = (case hex0 of c # cs \<Rightarrow> if c = CHR ''#'' then cs else hex0 | [] \<Rightarrow> hex0) in
      if length hex = 6 then
        Inr \<lparr>rgba_r = parseInt16 (substring hex 0 2),
             rgba_g = parseInt16 (substring hex 2 4),
             rgba_b = parseInt16 (substring hex 4 6),
             rgba_a = Num 1\<rparr>
      else if length hex = 8 then
        Inr \<lparr>rgba_r = parseInt16 (substring hex 0 2),
             rgba_g = parseInt16 (substring hex 2 4),
             rgba_b = parseInt16 (substring hex 4 6),
             rgba_a = jsnum_div (parseInt16 (substring hex 6 8)) 255\<rparr>
      else Inl (ValidationError (''Invalid hex color: '' @ hex)))"

definition same_rgba :: "rgba \<Rightarrow> Color \<Rightarrow> bool" where
  "same_rgba v c =
     (strict_eq (c_r c) (rgba_r v) \<and> strict_eq (c_g c) (rgba_g v) \<and>
      strict_eq (c_b c) (rgba_b v) \<and> strict_eq (c_a c) (rgba_a v))"

text \<open>
  \<open>ensureColorInTheme\<close> mutates the theme and may throw. The model returns the outcome
  (the error or the color id), the theme as the call leaves it, and the number of ids
  generated so far.
\<close>

definition ensureColorInTheme ::
  "env \<Rightarrow> Theme \<Rightarrow> string \<Rightarrow> nat \<Rightarrow> (error + string) \<times> Theme \<times> nat" where
  "ensureColorInTheme ev theme color k =
     (case hexToRGBA color of
        Inl e \<Rightarrow> (Inl e, theme, k)
      | Inr v \<Rightarrow>
          (case find (same_rgba v) (color_palette theme) of
             Some existingColor \<Rightarrow> (Inr (c_id existingColor), theme, k)
           | None \<Rightarrow>
               if length (color_palette theme) \<ge> 16 then
                 (Inl (ValidationError ''Color palette limit reached (max 16 colors)''), theme, k)
               else
                 let colorId = generateId ev ''color'' k;
                     colorName = ''color_'' @ num_str (of_nat (length (color_palette theme) + 1))
                 in (Inr colorId,
                     theme\<lparr>color_palette := color_palette theme @
                        [\<lparr>c_id = colorId, c_name = colorName,
                          c_r = rgba_r v, c_g = rgba_g v, c_b = rgba_b v, c_a = rgba_a v\<rparr>]\<rparr>,
                     Suc k)))"


subsection \<open>Fonts\<close>

text \<open>
  The process-wide cache \<open>googleFontCache\<close> and the count of ids generated so far are the
  state the handlers share besides the execution context.
\<close>

record World =
  next_id :: nat
  googleFontCache :: "string \<Rightarrow> bool option"

definition google_font_url :: "string \<Rightarrow> string" where
  "google_font_url fontName =
     ''https://fonts.googleapis.com/css2?family='' @ replace_ws fontName @
     '':wght@400;700&display=swap''"

definition isGoogleFont :: "env \<Rightarrow> string \<Rightarrow> World \<Rightarrow> bool \<times> World" where
  "isGoogleFont ev fontName w =
     (let key = toLowerCase fontName in
      case googleFontCache w key of
        Some available \<Rightarrow> (available, w)
      | None \<Rightarrow>
          let available = head_ok ev (google_font_url fontName)
          in (available, w\<lparr>googleFontCache := (googleFontCache w)(key \<mapsto> available)\<rparr>))"

definition getFontUrl :: "env \<Rightarrow> string \<Rightarrow> World \<Rightarrow> string \<times> World" where
  "getFontUrl ev fontName w =
     (case isGoogleFont ev fontName w of
        (available, w1) \<Rightarrow>
          (if available then google_font_url fontName else ''fonts/'' @ fontName @ ''.otf'', w1))"

definition ensureFontInTheme ::
  "env \<Rightarrow> Theme \<Rightarrow> string \<Rightarrow> World \<Rightarrow> (error + string) \<times> Theme \<times> World" where
  "ensureFontInTheme ev theme fontName w =
     (case find (\<lambda>f. toLowerCase (font_name f) = toLowerCase fontName) (font_palette theme) of
        Some existingFont \<Rightarrow> (Inr (font_id existingFont), theme, w)
      | None \<Rightarrow>
          if length (font_palette theme) \<ge> 8 then
            (Inl (ValidationError ''Font palette limit reached (max 8 fonts)''), theme, w)
          else
            let fontId = generateId ev ''font'' (next_id w) in
            case getFontUrl ev fontName (w\<lparr>next_id := Suc (next_id w)\<rparr>) of
              (fontUrl, w1) \<Rightarrow>
                (Inr fontId,
                 theme\<lparr>font_palette := font_palette theme @
                    [\<lparr>font_id = fontId, font_name = fontName, font_url = fontUrl\<rparr>]\<rparr>,
                 w1))"

section \<open>Anchor positioning\<close>

definition calculateAnchorPosition ::
  "string \<Rightarrow> rat \<Rightarrow> rat \<Rightarrow> rat \<Rightarrow> rat \<Rightarrow> rat \<Rightarrow> rat \<Rightarrow> error + (rat \<times> rat)" where
  "calculateAnchorPosition anchor canvasWidth canvasHeight elementWidth elementHeight offsetX offsetY =
     (let l = toLowerCase anchor;
          xy =
            (if l = ''center'' then
               Some ((canvasWidth - elementWidth) / 2, (canvasHeight - elementHeight) / 2)
             else if l = ''top-left'' then Some (0, 0)
             else if l = ''top-center'' then Some ((canvasWidth - elementWidth) / 2, 0)
             else if l = ''top-right'' then Some (canvasWidth - elementWidth, 0)
             else if l = ''center-left'' then Some (0, (canvasHeight - elementHeight) / 2)
             else if l = ''center-right'' then
               Some (canvasWidth - elementWidth, (canvasHeight - elementHeight) / 2)
             else if l = ''bottom-left'' then Some (0, canvasHeight - elementHeight)
             else if l = ''bottom-center'' then
               Some ((canvasWidth - elementWidth) / 2, canvasHeight - elementHeight)
             else if l = ''bottom-right'' then
               Some (canvasWidth - elementWidth, canvasHeight - elementHeight)
             else None)
      in case xy of
           None \<Rightarrow> Inl (ValidationError (''Unknown anchor point: '' @ anchor))
         | Some (x, y) \<Rightarrow> Inr (x + offsetX, y + offsetY))"


section \<open>Placeholder resolution\<close>

text \<open>
  \<open>match_placeholder\<close> is the regular expression \<open>/^\\$output_of_step_(\\d+)$/\<close> followed by
  \<open>parseInt(match[1], 10)\<close>: the sixteen characters of the prefix, then one or more decimal
  digits up to the end of the string. It is \<open>None\<close> when the expression does not match.

  \<open>parse_dec\<close> is \<open>parseInt\<close> on a string of decimal digits. The runtime's number is a
  double, which is the number the digits denote up to \<open>2^53\<close>; above it \<open>parseInt\<close> rounds,
  and the embedding does not follow the source (\<open>None\<close>, which \<open>resolveParameters\<close> below
  turns into \<open>Unmodelled\<close>).
\<close>

definition is_digit :: "char \<Rightarrow> bool" where
  "is_digit c = (let n = (of_char c :: nat) in 48 \<le> n \<and> n \<le> 57)"

definition MAX_EXACT_STEP :: nat where
  "MAX_EXACT_STEP = 2 ^ 53"

definition parse_dec :: "string \<Rightarrow> nat option" where
  "parse_dec ds =
     (let n = foldl (\<lambda>acc c. 10 * acc + (of_char c - 48)) 0 ds
      in if n \<le> MAX_EXACT_STEP then Some n else None)"

definition match_placeholder :: "string \<Rightarrow> nat option option" where
  "match_placeholder s =
     (if take 16 s = ''$output_of_step_'' \<and> drop 16 s \<noteq> [] \<and> list_all is_digit (drop 16 s)
      then Some (parse_dec (drop 16 s)) else None)"

text \<open>
  \<open>resolved[key] = value\<close> on the fresh object literal. For every key but \<open>__proto__\<close> it
  adds an own property. For \<open>__proto__\<close> it runs the setter the object inherits: a value
  that is an object, an array or \<open>null\<close> becomes the prototype of \<open>resolved\<close>, any other
  value is ignored, and in neither case does \<open>resolved\<close> gain an own property. A value of
  type \<open>json\<close> has no prototype, so the first case is not followed (\<open>Unmodelled\<close>).
\<close>

fun replaces_prototype :: "json \<Rightarrow> bool" where
  "replaces_prototype (JObj kvs) = True"
| "replaces_prototype (JArr xs) = True"
| "replaces_prototype JNull = True"
| "replaces_prototype v = False"

text \<open>
  \<open>operationOutputs\<close> is the map from step number to recorded output. The array and the
  object case run left to right and stop at the first error, as \<open>map\<close> and the \<open>for\<close> loop
  over \<open>Object.entries\<close> do when the callback throws.
\<close>

fun resolveParameters :: "(rat \<Rightarrow> json option) \<Rightarrow> json \<Rightarrow> error + json"
  and resolve_items :: "(rat \<Rightarrow> json option) \<Rightarrow> json list \<Rightarrow> error + json list"
  and resolve_entries ::
    "(rat \<Rightarrow> json option) \<Rightarrow> (string \<times> json) list \<Rightarrow> error + (string \<times> json) list" where
  "resolveParameters outs (JStr s) =
     (case match_placeholder s of
        None \<Rightarrow> Inr (JStr s)
      | Some None \<Rightarrow> Inl Unmodelled
      | Some (Some stepNum) \<Rightarrow>
          (case outs (of_nat stepNum) of
             None \<Rightarrow> Inl (ValidationError (''No output found for step '' @ nat_str stepNum))
           | Some JUndefined \<Rightarrow>
               Inl (ValidationError (''No output found for step '' @ nat_str stepNum))
           | Some output \<Rightarrow> Inr output))"
| "resolveParameters outs (JArr xs) =
     (case resolve_items outs xs of Inl e \<Rightarrow> Inl e | Inr ys \<Rightarrow> Inr (JArr ys))"
| "resolveParameters outs (JObj kvs) =
     (case resolve_entries outs kvs of Inl e \<Rightarrow> Inl e | Inr r \<Rightarrow> Inr (JObj r))"
| "resolveParameters outs JUndefined = Inr JUndefined"
| "resolveParameters outs JNull = Inr JNull"
| "resolveParameters outs (JBool b) = Inr (JBool b)"
| "resolveParameters outs (JNum q) = Inr (JNum q)"
| "resolve_items outs [] = Inr []"
| "resolve_items outs (x # xs) =
     (case resolveParameters outs x of
        Inl e \<Rightarrow> Inl e
      | Inr y \<Rightarrow> (case resolve_items outs xs of Inl e \<Rightarrow> Inl e | Inr ys \<Rightarrow> Inr (y # ys)))"
| "resolve_entries outs [] = Inr []"
| "resolve_entries outs ((key, v) # kvs) =
     (case resolveParameters outs v of
        Inl e \<Rightarrow> Inl e
      | Inr y \<Rightarrow>
          if key = ''__proto__'' then
            (if replaces_prototype y then Inl Unmodelled else resolve_entries outs kvs)
          else
            (case resolve_entries outs kvs of Inl e \<Rightarrow> Inl e | Inr r \<Rightarrow> Inr ((key, y) # r)))"



section \<open>Scene graph\<close>

text \<open>
  An \<open>Element\<close> is one object with optional fields, as \<open>types.ts\<close> declares it. A style
  is an object read in insertion order, hence an association list.
\<close>

datatype ElementType = T_data_item | T_shape | T_svg | T_container | T_image

datatype Element = Element
  (element_id: string)
  (element_type: ElementType)
  (data_item_id: "string option")
  (shape_type: "string option")
  (svg_content: "string option")
  (image_url: "string option")
  (style: "(string \<times> json) list option")
  (children: "Element list option")

record Canvas =
  canvas_width :: json
  canvas_height :: json

record Template =
  template_id :: string
  template_name :: string
  canvas :: Canvas
  elements :: "Element list"

fun findElement :: "Element list \<Rightarrow> string \<Rightarrow> Element option" where
  "findElement [] elementId = None"
| "findElement (Element eid ty did sh sv iu st ch # rest) elementId =
     (if eid = elementId then Some (Element eid ty did sh sv iu st ch)
      else case ch of
             Some cs \<Rightarrow>
               if ty = T_container then
                 (case findElement cs elementId of
                    Some found \<Rightarrow> Some found
                  | None \<Rightarrow> findElement rest elementId)
               else findElement rest elementId
           | None \<Rightarrow> findElement rest elementId)"

fun removeElementFromArray :: "Element list \<Rightarrow> string \<Rightarrow> Element option \<times> Element list" where
  "removeElementFromArray [] elementId = (None, [])"
| "removeElementFromArray (Element eid ty did sh sv iu st ch # rest) elementId =
     (if eid = elementId then (Some (Element eid ty did sh sv iu st ch), rest)
      else case ch of
             Some cs \<Rightarrow>
               if ty = T_container then
                 (case removeElementFromArray cs elementId of
                    (Some found, cs') \<Rightarrow> (Some found, Element eid ty did sh sv iu st (Some cs') # rest)
                  | (None, cs') \<Rightarrow>
                      (case removeElementFromArray rest elementId of
                         (r, rest') \<Rightarrow> (r, Element eid ty did sh sv iu st ch # rest')))
               else
                 (case removeElementFromArray rest elementId of
                    (r, rest') \<Rightarrow> (r, Element eid ty did sh sv iu st ch # rest'))
           | None \<Rightarrow>
               (case removeElementFromArray rest elementId of
                  (r, rest') \<Rightarrow> (r, Element eid ty did sh sv iu st ch # rest')))"

definition removeElementFromTemplate :: "Template \<Rightarrow> string \<Rightarrow> Element option \<times> Template" where
  "removeElementFromTemplate template elementId =
     (case removeElementFromArray (elements template) elementId of
        (r, es) \<Rightarrow> (r, template\<lparr>elements := es\<rparr>))"

text \<open>
  \<open>findElement\<close> hands out a reference, and callers mutate the element behind it. The
  model applies the mutation \<open>f\<close> at the place \<open>findElement\<close> reaches: the first match
  in the same traversal.
\<close>

fun updateElement :: "(Element \<Rightarrow> Element) \<Rightarrow> Element list \<Rightarrow> string \<Rightarrow> Element list" where
  "updateElement f [] elementId = []"
| "updateElement f (Element eid ty did sh sv iu st ch # rest) elementId =
     (if eid = elementId then f (Element eid ty did sh sv iu st ch) # rest
      else case ch of
             Some cs \<Rightarrow>
               if ty = T_container then
                 (case findElement cs elementId of
                    Some found \<Rightarrow> Element eid ty did sh sv iu st (Some (updateElement f cs elementId)) # rest
                  | None \<Rightarrow> Element eid ty did sh sv iu st ch # updateElement f rest elementId)
               else Element eid ty did sh sv iu st ch # updateElement f rest elementId
           | None \<Rightarrow> Element eid ty did sh sv iu st ch # updateElement f rest elementId)"

definition push_child :: "Element \<Rightarrow> Element \<Rightarrow> Element" where
  "push_child element c =
     (case c of Element eid ty did sh sv iu st ch \<Rightarrow>
        Element eid ty did sh sv iu st
          (Some ((case ch of Some cs \<Rightarrow> cs | None \<Rightarrow> []) @ [element])))"

definition addElementToContainer :: "Template \<Rightarrow> string \<Rightarrow> string \<Rightarrow> (error + unit) \<times> Template" where
  "addElementToContainer template elementId containerId =
     (case removeElementFromTemplate template elementId of
        (None, t1) \<Rightarrow> (Inl (ValidationError (''Element not found: '' @ elementId)), t1)
      | (Some element, t1) \<Rightarrow>
          (case findElement (elements t1) containerId of
             None \<Rightarrow> (Inl (ValidationError (''Container not found: '' @ containerId)), t1)
           | Some c \<Rightarrow>
               if element_type c \<noteq> T_container then
                 (Inl (ValidationError (''Element '' @ containerId @ '' is not a container'')), t1)
               else
                 (Inr (), t1\<lparr>elements := updateElement (push_child element) (elements t1) containerId\<rparr>)))"


subsection \<open>Scene data and the execution context\<close>

datatype DataItemType = D_text | D_image

record DataItem =
  di_id :: string
  di_type :: DataItemType
  display_name :: json
  content :: "json option"
  di_image_url :: "json option"

record SceneData =
  scene_id :: string
  data_items :: "DataItem list"

record ExecutionContext =
  sceneId :: string
  sceneName :: string
  data :: SceneData
  template :: Template
  theme :: Theme
  currentStep :: rat
  totalSteps :: nat
  layerMap :: "json \<Rightarrow> string option"
  operationOutputs :: "rat \<Rightarrow> json option"

subsection \<open>validateScene\<close>

text \<open>
  \<open>checkElement\<close> throws at the first dangling reference, visiting an element before its
  children and the children of any element that has some, whatever its type.
\<close>

fun checkElement :: "string list \<Rightarrow> Element \<Rightarrow> error + unit"
  and checkElements :: "string list \<Rightarrow> Element list \<Rightarrow> error + unit" where
  "checkElement dataItemIds (Element eid ty did sh sv iu st ch) =
     (if ty = T_data_item \<and> did \<noteq> None \<and> did \<noteq> Some [] \<and> the did \<notin> set dataItemIds then
        Inl (ValidationError (''Element references non-existent data item: '' @ the did))
      else case ch of Some cs \<Rightarrow> checkElements dataItemIds cs | None \<Rightarrow> Inr ())"
| "checkElements dataItemIds [] = Inr ()"
| "checkElements dataItemIds (e # es) =
     (case checkElement dataItemIds e of
        Inl err \<Rightarrow> Inl err
      | Inr u \<Rightarrow> checkElements dataItemIds es)"

definition validateScene :: "ExecutionContext \<Rightarrow> error + unit" where
  "validateScene context =
     (if \<not> truthy (canvas_width (canvas (template context))) \<or>
         \<not> truthy (canvas_height (canvas (template context))) then
        Inl (ValidationError ''Canvas not initialized'')
      else if length (color_palette (theme context)) > 16 then
        Inl (ValidationError ''Color palette exceeds limit of 16 colors'')
      else if length (font_palette (theme context)) > 8 then
        Inl (ValidationError ''Font palette exceeds limit of 8 fonts'')
      else checkElements (map di_id (data_items (data context))) (elements (template context)))"

section \<open>Operation handlers\<close>

record OperationResult =
  success :: bool
  op_output :: json
  result_error :: "string option"

type_synonym handler =
  "env \<Rightarrow> ExecutionContext \<Rightarrow> json \<Rightarrow> World \<Rightarrow> (error + OperationResult) \<times> ExecutionContext \<times> World"

definition ok :: "json \<Rightarrow> OperationResult" where
  "ok v = \<lparr>success = True, op_output = v, result_error = None\<rparr>"

definition push_element :: "Element \<Rightarrow> ExecutionContext \<Rightarrow> ExecutionContext" where
  "push_element e context =
     context\<lparr>template := (template context)\<lparr>elements := elements (template context) @ [e]\<rparr>\<rparr>"

text \<open>
  The palette functions take a string; a handler passes them whatever the parameters
  hold. On anything else the first string method called on the value throws a
  \<open>TypeError\<close>: \<open>hex.replace\<close> at once, \<open>fontName.toLowerCase\<close> in the search callback when
  the palette has an entry, and in \<open>isGoogleFont\<close>, after one id was generated, when it has
  none.
\<close>

definition ensureColor_any ::
  "env \<Rightarrow> Theme \<Rightarrow> json \<Rightarrow> nat \<Rightarrow> (error + string) \<times> Theme \<times> nat" where
  "ensureColor_any ev th v k =
     (case v of
        JStr s \<Rightarrow> ensureColorInTheme ev th s k
      | _ \<Rightarrow> (Inl (TypeError ''hex.replace is not a function''), th, k))"

definition ensureFont_any ::
  "env \<Rightarrow> Theme \<Rightarrow> json \<Rightarrow> World \<Rightarrow> (error + string) \<times> Theme \<times> World" where
  "ensureFont_any ev th v w =
     (case v of
        JStr s \<Rightarrow> ensureFontInTheme ev th s w
      | _ \<Rightarrow>
          (Inl (TypeError ''fontName.toLowerCase is not a function''), th,
           if font_palette th = [] then w\<lparr>next_id := Suc (next_id w)\<rparr> else w))"

subsection \<open>create\_canvas\<close>

definition handleCreateCanvas :: handler where
  "handleCreateCanvas ev context params w =
     (let width = get_prop params ''width'';
          height = get_prop params ''height'';
          background_color = get_prop params ''background_color''
      in
      if \<not> truthy width \<or> \<not> truthy height then
        (Inl (ValidationError ''Canvas width and height are required''), context, w)
      else
        let context1 = context\<lparr>template := (template context)
                         \<lparr>canvas := \<lparr>canvas_width = width, canvas_height = height\<rparr>\<rparr>\<rparr>;
            result = ok (JObj [(''width'', width), (''height'', height)])
        in
        if truthy background_color then
          (case ensureColor_any ev (theme context1) background_color (next_id w) of
             (Inl e, th, k) \<Rightarrow> (Inl e, context1\<lparr>theme := th\<rparr>, w\<lparr>next_id := k\<rparr>)
           | (Inr colorId, th, k) \<Rightarrow>
               let bgElement =
                     Element (generateId ev ''elem'' k) T_shape None (Some ''rectangle'') None None
                       (Some [(''width'', JStr ''100%''), (''height'', JStr ''100%''),
                              (''background_color'', JStr colorId)])
                       None
               in (Inr result, push_element bgElement (context1\<lparr>theme := th\<rparr>),
                   w\<lparr>next_id := Suc k\<rparr>))
        else (Inr result, context1, w))"

subsection \<open>add\_text\_layer\<close>

text \<open>
  The positioning strategy of \<open>handleAddTextLayer\<close>: left, top and the optional transform.
  Priority 1 is the anchor, priority 2 explicit coordinates, priority 3 full centering.
\<close>

definition text_position ::
  "ExecutionContext \<Rightarrow> json \<Rightarrow> json \<Rightarrow> json \<Rightarrow> json \<Rightarrow> json \<Rightarrow> json \<Rightarrow>
   error + (string \<times> string \<times> string option)" where
  "text_position context anchor x y offset_x offset_y sizeValue =
     (if truthy anchor then
        let canvasWidth = jor (canvas_width (canvas (template context))) (JNum 800);
            canvasHeight = jor (canvas_height (canvas (template context))) (JNum 600)
        in
        if anchor = JStr ''center'' \<or> anchor = JStr ''top-center'' \<or> anchor = JStr ''bottom-center'' then
          Inr (''50%'',
               (if anchor = JStr ''center'' then ''50%''
                else if anchor = JStr ''top-center'' then js_str offset_y @ ''px''
                else ''calc(100% - '' @ js_str offset_y @ ''px)''),
               Some (if anchor = JStr ''center'' then
                       ''translate(calc(-50% + '' @ js_str offset_x @ ''px), calc(-50% + '' @
                         js_str offset_y @ ''px))''
                     else ''translateX(calc(-50% + '' @ js_str offset_x @ ''px))''))
        else
          (case anchor of
             JStr a \<Rightarrow>
               (case (canvasWidth, canvasHeight, offset_x, offset_y) of
                  (JNum cw, JNum ch, JNum ox, JNum oy) \<Rightarrow>
                    (case calculateAnchorPosition a cw ch 100
                            (case sizeValue of JNum sz \<Rightarrow> sz | _ \<Rightarrow> 16) ox oy of
                       Inl e \<Rightarrow> Inl e
                     | Inr (px, py) \<Rightarrow> Inr (num_str px @ ''px'', num_str py @ ''px'', None))
                | _ \<Rightarrow> Inl Unmodelled)
           | _ \<Rightarrow> Inl (TypeError ''anchor.toLowerCase is not a function''))
      else if x \<noteq> JUndefined \<or> y \<noteq> JUndefined then
        Inr (js_str (nullish x (JNum 0)) @ ''px'', js_str (nullish y (JNum 0)) @ ''px'', None)
      else Inr (''50%'', ''50%'', Some ''translate(-50%, -50%)''))"

text \<open>
  The drop shadow: the shadow color is registered in the theme, and the value of
  \<open>text_shadow\<close> is composed from the offsets, the blur and the color, which is expanded to
  \<open>rgba(...)\<close> when the opacity is below 1.
\<close>

definition text_shadow ::
  "env \<Rightarrow> Theme \<Rightarrow> nat \<Rightarrow> json \<Rightarrow> json \<Rightarrow> json \<Rightarrow> json \<Rightarrow> json \<Rightarrow>
   (error + string) \<times> Theme \<times> nat" where
  "text_shadow ev th k shadow_color shadow_offset_x shadow_offset_y shadow_blur shadow_opacity =
     (case ensureColor_any ev th shadow_color k of
        (Inl e, th1, k1) \<Rightarrow> (Inl e, th1, k1)
      | (Inr colorId, th1, k1) \<Rightarrow>
          (case shadow_opacity of
             JNum opacity \<Rightarrow>
               let sc = js_str shadow_color;
                   shadowColorWithOpacity =
                     (if opacity < 1 then
                        ''rgba('' @ jsnum_str (parseInt16 (substring sc 1 3)) @ '', '' @
                          jsnum_str (parseInt16 (substring sc 3 5)) @ '', '' @
                          jsnum_str (parseInt16 (substring sc 5 7)) @ '', '' @
                          num_str opacity @ '')''
                      else sc)
               in (Inr (js_str shadow_offset_x @ ''px '' @ js_str shadow_offset_y @ ''px '' @
                        js_str shadow_blur @ ''px '' @ shadowColorWithOpacity),
                   th1, k1)
           | _ \<Rightarrow> (Inl Unmodelled, th1, k1)))"

definition handleAddTextLayer :: handler where
  "handleAddTextLayer ev context params w =
     (let layer_name = get_prop params ''layer_name'';
          textValue = jor (get_prop params ''text'') (get_prop params ''text_content'');
          x = get_prop params ''x'';
          y = get_prop params ''y'';
          anchor = get_prop params ''anchor'';
          offset_x = dflt (get_prop params ''offset_x'') (JNum 0);
          offset_y = dflt (get_prop params ''offset_y'') (JNum 0);
          color = dflt (get_prop params ''color'') (JStr ''#000000'');
          bold = dflt (get_prop params ''bold'') (JBool False);
          italic = dflt (get_prop params ''italic'') (JBool False);
          shadow_enabled = dflt (get_prop params ''shadow_enabled'') (JBool False);
          shadow_color = dflt (get_prop params ''shadow_color'') (JStr ''#000000'');
          shadow_offset_x = dflt (get_prop params ''shadow_offset_x'') (JNum 0);
          shadow_offset_y = dflt (get_prop params ''shadow_offset_y'') (JNum 0);
          shadow_blur = dflt (get_prop params ''shadow_blur'') (JNum 0);
          shadow_opacity = dflt (get_prop params ''shadow_opacity'') (JNum 1)
      in
      if \<not> truthy layer_name \<or> \<not> truthy textValue then
        (Inl (ValidationError ''layer_name and text are required''), context, w)
      else
        let fontValue = jor (jor (get_prop params ''font'') (get_prop params ''font_name'')) (JStr ''Arial'');
            sizeValue = jor (jor (get_prop params ''size'') (get_prop params ''font_size'')) (JNum 16);
            alignValue =
              jor (jor (get_prop params ''alignment'') (get_prop params ''text_align'')) (JStr ''left'')
        in
        (case ensureFont_any ev (theme context) fontValue w of
          (Inl e, th1, w1) \<Rightarrow> (Inl e, context\<lparr>theme := th1\<rparr>, w1)
        | (Inr fontId, th1, w1) \<Rightarrow>
        (case ensureColor_any ev th1 color (next_id w1) of
          (Inl e, th2, k2) \<Rightarrow> (Inl e, context\<lparr>theme := th2\<rparr>, w1\<lparr>next_id := k2\<rparr>)
        | (Inr colorId, th2, k2) \<Rightarrow>
        (let dataItemId = generateId ev ''data'' k2;
            dataItem = \<lparr>di_id = dataItemId, di_type = D_text, display_name = layer_name,
                        content = Some textValue, di_image_url = None\<rparr>;
            context1 = context\<lparr>theme := th2,
                         data := (data context)\<lparr>data_items := data_items (data context) @ [dataItem]\<rparr>\<rparr>
        in
        (case text_position context1 anchor x y offset_x offset_y sizeValue of
          Inl e \<Rightarrow> (Inl e, context1, w1\<lparr>next_id := Suc k2\<rparr>)
        | Inr (elementLeft, elementTop, elementTransform) \<Rightarrow>
        (let elementId = generateId ev ''elem'' (Suc k2);
            k3 = Suc (Suc k2);
            style0 =
              [(''position'', JStr ''absolute''),
               (''left'', JStr elementLeft),
               (''top'', JStr elementTop),
               (''font'', JStr fontId),
               (''font_size'', (case sizeValue of JNum sz \<Rightarrow> JStr (num_str sz @ ''px'') | _ \<Rightarrow> sizeValue)),
               (''color'', JStr colorId),
               (''text_align'', alignValue)];
            style1 = style0 @ (if truthy bold then [(''font_weight'', JStr ''bold'')] else []);
            style2 = style1 @ (if truthy italic then [(''font_style'', JStr ''italic'')] else []);
            style3 = style2 @
              (case elementTransform of
                 Some tr \<Rightarrow> if tr \<noteq> [] then [(''transform'', JStr tr)] else []
               | None \<Rightarrow> [])
        in
        (case (if truthy shadow_enabled then
                (case text_shadow ev th2 k3 shadow_color shadow_offset_x shadow_offset_y
                        shadow_blur shadow_opacity of
                   (Inl e, th3, k4) \<Rightarrow> (Inl e, th3, k4)
                 | (Inr shadow, th3, k4) \<Rightarrow> (Inr (style3 @ [(''text_shadow'', JStr shadow)]), th3, k4))
              else (Inr style3, th2, k3)) of
          (Inl e, th3, k4) \<Rightarrow> (Inl e, context1\<lparr>theme := th3\<rparr>, w1\<lparr>next_id := k4\<rparr>)
        | (Inr style4, th3, k4) \<Rightarrow>
        (let element = Element elementId T_data_item (Some dataItemId) None None None (Some style4) None;
             context2 = push_element element (context1\<lparr>theme := th3\<rparr>)
         in (Inr (ok (JObj [(''elementId'', JStr elementId), (''dataItemId'', JStr dataItemId)])),
             context2\<lparr>layerMap := (layerMap context2)(layer_name \<mapsto> elementId)\<rparr>,
             w1\<lparr>next_id := k4\<rparr>)))))))))"

subsection \<open>The image placeholders\<close>

definition not_implemented :: "string \<Rightarrow> handler" where
  "not_implemented name ev context params w =
     (Inl (ValidationError (name @ '' operation is not implemented yet'')), context, w)"

definition handleResizeImage :: handler where
  "handleResizeImage = not_implemented ''resize_image''"

definition handleCropImage :: handler where
  "handleCropImage = not_implemented ''crop_image''"

definition handleRemoveBackground :: handler where
  "handleRemoveBackground = not_implemented ''remove_background''"

definition handleUpscale :: handler where
  "handleUpscale = not_implemented ''upscale''"

definition handleSegment :: handler where
  "handleSegment = not_implemented ''segment''"

subsection \<open>add\_layer\_to\_container\<close>

definition handleAddLayerToContainer :: handler where
  "handleAddLayerToContainer ev context params w =
     (let layer_name = get_prop params ''layer_name'';
          container_name = get_prop params ''container_name''
      in
      if \<not> truthy layer_name \<or> \<not> truthy container_name then
        (Inl (ValidationError ''layer_name and container_name are required''), context, w)
      else
        (case layerMap context layer_name of
          None \<Rightarrow> (Inl (ReferenceError (''Layer not found: '' @ js_str layer_name)), context, w)
        | Some layerElementId \<Rightarrow>
        (if layerElementId = [] then
          (Inl (ReferenceError (''Layer not found: '' @ js_str layer_name)), context, w)
        else
        (case layerMap context container_name of
          None \<Rightarrow> (Inl (ReferenceError (''Container not found: '' @ js_str container_name)), context, w)
        | Some containerElementId \<Rightarrow>
        (if containerElementId = [] then
          (Inl (ReferenceError (''Container not found: '' @ js_str container_name)), context, w)
        else
        (case addElementToContainer (template context) layerElementId containerElementId of
          (Inl e, t1) \<Rightarrow> (Inl e, context\<lparr>template := t1\<rparr>, w)
        | (Inr u, t1) \<Rightarrow>
            (Inr (ok (JObj [(''layerElementId'', JStr layerElementId),
                            (''containerElementId'', JStr containerElementId)])),
             context\<lparr>template := t1\<rparr>, w)))))))"

section \<open>Renderer\<close>

record Scene =
  scene_data :: SceneData
  scene_template :: Template
  scene_theme :: Theme

record RenderResult =
  html :: string
  css :: string

text \<open>
  The three lookup tables are \<open>Map\<close>s filled in palette order, so a later entry with the
  same key replaces an earlier one.
\<close>

definition dataItemMap :: "DataItem list \<Rightarrow> string \<Rightarrow> DataItem option" where
  "dataItemMap items key = find (\<lambda>d. di_id d = key) (rev items)"

definition colorMap :: "Color list \<Rightarrow> string \<Rightarrow> Color option" where
  "colorMap colors key = find (\<lambda>c. c_id c = key) (rev colors)"

definition fontMap :: "Font list \<Rightarrow> string \<Rightarrow> Font option" where
  "fontMap fonts key = find (\<lambda>f. font_id f = key) (rev fonts)"

definition style_get :: "(string \<times> json) list \<Rightarrow> string \<Rightarrow> json" where
  "style_get st key = (case map_of st key of Some v \<Rightarrow> v | None \<Rightarrow> JUndefined)"

definition style_line ::
  "(string \<Rightarrow> Font option) \<Rightarrow> (string \<Rightarrow> Color option) \<Rightarrow> string \<times> json \<Rightarrow> string" where
  "style_line fm cm kv =
     (case kv of (key, v) \<Rightarrow>
        if v = JUndefined then []
        else
          (case (if key = ''font'' then (case v of JStr s \<Rightarrow> fm s | _ \<Rightarrow> None) else None) of
            Some font \<Rightarrow> ''  font-family: '' @ sq @ font_name font @ sq @ '', serif;'' @ nl
          | None \<Rightarrow>
              let cssProperty = (if key = ''fill'' then ''background-color'' else underscores_to_hyphens key);
                  cssValue =
                    (case (if key = ''color'' \<or> key = ''fill'' \<or> key = ''background_color'' \<or>
                              key = ''border_color''
                           then (case v of JStr s \<Rightarrow> cm s | _ \<Rightarrow> None) else None) of
                       Some color \<Rightarrow>
                         ''rgba('' @ jsnum_str (c_r color) @ '', '' @ jsnum_str (c_g color) @ '', '' @
                           jsnum_str (c_b color) @ '', '' @ jsnum_str (c_a color) @ '')''
                     | None \<Rightarrow> js_str v)
              in ''  '' @ cssProperty @ '': '' @ cssValue @ '';'' @ nl))"

definition convertStyleToCSS ::
  "(string \<times> json) list \<Rightarrow> (string \<Rightarrow> Font option) \<Rightarrow> (string \<Rightarrow> Color option) \<Rightarrow> string" where
  "convertStyleToCSS st fm cm =
     (let isFullSize = (style_get st ''width'' = JStr ''100%'' \<and> style_get st ''height'' = JStr ''100%'');
          hasExplicitPosition = (style_get st ''position'' \<noteq> JUndefined)
      in (if isFullSize \<and> \<not> hasExplicitPosition then
            ''  position: absolute;'' @ nl @ ''  top: 0;'' @ nl @ ''  left: 0;'' @ nl @
            ''  z-index: 0;'' @ nl
          else if \<not> hasExplicitPosition then
            ''  position: relative;'' @ nl @ ''  z-index: 1;'' @ nl
          else []) @
         concat (map (style_line fm cm) st))"

text \<open>The class name of an element under a parent whose class name is \<open>prefix\<close>.\<close>

definition class_name :: "string \<Rightarrow> string \<Rightarrow> string" where
  "class_name prefix eid = (if prefix \<noteq> [] then prefix @ ''-'' @ eid else eid)"

fun generateElementCSS ::
    "(string \<Rightarrow> Font option) \<Rightarrow> (string \<Rightarrow> Color option) \<Rightarrow> Element \<Rightarrow> string \<Rightarrow> string"
  and generateElementsCSS ::
    "(string \<Rightarrow> Font option) \<Rightarrow> (string \<Rightarrow> Color option) \<Rightarrow> Element list \<Rightarrow> string \<Rightarrow> string"
  where
  "generateElementCSS fm cm (Element eid ty did sh sv iu st ch) prefix =
     (case st of
        Some s \<Rightarrow>
          (if convertStyleToCSS s fm cm \<noteq> [] then
             ''.'' @ class_name prefix eid @ '' {'' @ nl @ convertStyleToCSS s fm cm @ ''}'' @ nl @ nl
           else [])
      | None \<Rightarrow> []) @
     (case ch of
        Some cs \<Rightarrow> generateElementsCSS fm cm cs (class_name prefix eid)
      | None \<Rightarrow> [])"
| "generateElementsCSS fm cm [] prefix = []"
| "generateElementsCSS fm cm (e # es) prefix =
     generateElementCSS fm cm e prefix @ generateElementsCSS fm cm es prefix"

definition generateCSS ::
  "Theme \<Rightarrow> Template \<Rightarrow> (string \<Rightarrow> Font option) \<Rightarrow> (string \<Rightarrow> Color option) \<Rightarrow> string" where
  "generateCSS th t fm cm =
     join nl (map (\<lambda>f. ''@import url('' @ sq @ font_url f @ sq @ '');'') (font_palette th)) @ nl @ nl @
     ''.scene-container {'' @ nl @
     ''  width: '' @ js_str (canvas_width (canvas t)) @ ''px;'' @ nl @
     ''  height: '' @ js_str (canvas_height (canvas t)) @ ''px;'' @ nl @
     ''  position: relative;'' @ nl @
     ''  overflow: hidden;'' @ nl @
     ''  box-sizing: border-box;'' @ nl @
     ''}'' @ nl @ nl @
     ''.scene-container * {'' @ nl @
     ''  box-sizing: border-box;'' @ nl @
     ''}'' @ nl @ nl @
     generateElementsCSS fm cm (elements t) []"

definition or_empty :: "json option \<Rightarrow> string" where
  "or_empty v = (case v of Some u \<Rightarrow> if truthy u then js_str u else [] | None \<Rightarrow> [])"

definition generateDataItemHTML ::
  "Element \<Rightarrow> (string \<Rightarrow> DataItem option) \<Rightarrow> string \<Rightarrow> string \<Rightarrow> string" where
  "generateDataItemHTML element dm className indent =
     (case data_item_id element of
        None \<Rightarrow> []
      | Some i \<Rightarrow>
          if i = [] then []
          else
            (case dm i of
               None \<Rightarrow> []
             | Some dataItem \<Rightarrow>
                 if di_type dataItem = D_text then
                   indent @ ''<div class='' @ dq @ className @ dq @ ''>'' @ or_empty (content dataItem) @
                   ''</div>'' @ nl
                 else
                   indent @ ''<img class='' @ dq @ className @ dq @ '' src='' @ dq @
                   or_empty (di_image_url dataItem) @ dq @ '' alt='' @ dq @
                   js_str (display_name dataItem) @ dq @ '' />'' @ nl))"

definition str_or_empty :: "string option \<Rightarrow> string" where
  "str_or_empty v = (case v of Some s \<Rightarrow> s | None \<Rightarrow> [])"

fun generateElementHTML ::
    "(string \<Rightarrow> DataItem option) \<Rightarrow> Element \<Rightarrow> nat \<Rightarrow> string \<Rightarrow> string"
  and generateElementsHTML ::
    "(string \<Rightarrow> DataItem option) \<Rightarrow> Element list \<Rightarrow> nat \<Rightarrow> string \<Rightarrow> string"
  where
  "generateElementHTML dm (Element eid ty did sh sv iu st ch) indentLevel parentPrefix =
     (let indent = concat (replicate indentLevel ''  '');
          className = class_name parentPrefix eid
      in case ty of
           T_data_item \<Rightarrow>
             generateDataItemHTML (Element eid ty did sh sv iu st ch) dm className indent
         | T_shape \<Rightarrow> (indent @ ''<div class='' @ dq @ className @ dq @ ''></div>'' @ nl)
         | T_container \<Rightarrow>
             (indent @ ''<div class='' @ dq @ className @ dq @ ''>'' @ nl @
              (case ch of
                 Some cs \<Rightarrow> generateElementsHTML dm cs (indentLevel + 1) className
               | None \<Rightarrow> []) @
              indent @ ''</div>'' @ nl)
         | T_image \<Rightarrow>
             (indent @ ''<img class='' @ dq @ className @ dq @ '' src='' @ dq @ str_or_empty iu @ dq @
              '' alt='' @ dq @ dq @ '' />'' @ nl)
         | T_svg \<Rightarrow>
             (indent @ ''<div class='' @ dq @ className @ dq @ ''>'' @ str_or_empty sv @ ''</div>'' @ nl))"
| "generateElementsHTML dm [] indentLevel parentPrefix = []"
| "generateElementsHTML dm (e # es) indentLevel parentPrefix =
     generateElementHTML dm e indentLevel parentPrefix @
     generateElementsHTML dm es indentLevel parentPrefix"

definition generateHTML :: "Template \<Rightarrow> (string \<Rightarrow> DataItem option) \<Rightarrow> string" where
  "generateHTML t dm =
     ''<div class='' @ dq @ ''scene-container'' @ dq @ ''>'' @ nl @
     generateElementsHTML dm (elements t) 1 [] @ ''</div>''"

definition renderScene :: "Scene \<Rightarrow> RenderResult" where
  "renderScene scene =
     \<lparr>html = generateHTML (scene_template scene) (dataItemMap (data_items (scene_data scene))),
      css = generateCSS (scene_theme scene) (scene_template scene)
              (fontMap (font_palette (scene_theme scene)))
              (colorMap (color_palette (scene_theme scene)))\<rparr>"

section \<open>The execution pipeline\<close>

record Operation =
  step :: rat
  operation :: string
  parameters :: json

text \<open>The messages sent on the channel, before \<open>JSON.stringify\<close>.\<close>

datatype message =
    EXECUTION_PROGRESS rat nat string string
  | EXECUTION_COMPLETE string string "string list" RenderResult
  | EXECUTION_FAILED int string string

text \<open>
  The registry. The bodies of four handlers are not modelled (two call the image service,
  one reads styles with \<open>parseFloat\<close>, one patches a text layer): they are the parameter
  \<open>ext\<close>, and every theorem holds whatever they do. Operation names are own keys of the
  table; the members a plain object inherits are not looked at.
\<close>

definition OPERATION_HANDLERS :: "(string \<Rightarrow> handler) \<Rightarrow> string \<Rightarrow> handler option" where
  "OPERATION_HANDLERS ext name =
     (if name = ''create_canvas'' then Some handleCreateCanvas
      else if name = ''add_text_layer'' then Some handleAddTextLayer
      else if name = ''resize_image'' then Some handleResizeImage
      else if name = ''crop_image'' then Some handleCropImage
      else if name = ''remove_background'' then Some handleRemoveBackground
      else if name = ''upscale'' then Some handleUpscale
      else if name = ''segment'' then Some handleSegment
      else if name = ''add_layer_to_container'' then Some handleAddLayerToContainer
      else if name \<in> set [''add_image_layer'', ''edit_text_layer'', ''set_layer_visibility'',
                           ''delete_layer'', ''generate_image'', ''edit_image'', ''set_layer_anchor'',
                           ''create_flex_container'', ''set_flex_layout'']
      then Some (ext name)
      else None)"

definition initial_context :: "string \<Rightarrow> string \<Rightarrow> Operation list \<Rightarrow> ExecutionContext" where
  "initial_context sid sname operations =
     \<lparr>sceneId = sid,
      sceneName = sname,
      data = \<lparr>scene_id = sid, data_items = []\<rparr>,
      template = \<lparr>template_id = sid @ ''_template'', template_name = sname @ '' Template'',
                  canvas = \<lparr>canvas_width = JNum 800, canvas_height = JNum 600\<rparr>, elements = []\<rparr>,
      theme = \<lparr>theme_id = sid @ ''_theme'', theme_name = sname @ '' Theme'',
               color_palette = [], font_palette = []\<rparr>,
      currentStep = 0,
      totalSteps = length operations,
      layerMap = Map.empty,
      operationOutputs = Map.empty\<rparr>"

text \<open>
  The state of a run: the context, the shared state, the messages sent so far, and (a
  ghost field, for stating what was run) the operations whose handler was invoked.
\<close>

record Run =
  run_context :: ExecutionContext
  run_world :: World
  sent :: "message list"
  invoked :: "Operation list"

text \<open>The loop over the operations; \<open>Inl\<close> is the error it throws.\<close>

fun run_operations ::
  "env \<Rightarrow> (string \<Rightarrow> handler) \<Rightarrow> Operation list \<Rightarrow> Run \<Rightarrow> (error + unit) \<times> Run" where
  "run_operations ev ext [] r = (Inr (), r)"
| "run_operations ev ext (opn # rest) r =
     (let context1 = (run_context r)\<lparr>currentStep := step opn\<rparr>;
          r1 = r\<lparr>run_context := context1,
                 sent := sent r @
                   [EXECUTION_PROGRESS (step opn) (totalSteps context1) (operation opn)
                      (''Executing '' @ operation opn @ ''...'')]\<rparr>
      in
      (case OPERATION_HANDLERS ext (operation opn) of
        None \<Rightarrow> (Inl (ValidationError (''Unknown operation: '' @ operation opn)), r1)
      | Some h \<Rightarrow>
      (case resolveParameters (operationOutputs context1) (parameters opn) of
        Inl e \<Rightarrow> (Inl e, r1)
      | Inr resolvedParams \<Rightarrow>
      (case h ev context1 resolvedParams (run_world r1) of
        (Inl e, context2, w2) \<Rightarrow>
          (Inl e, r1\<lparr>run_context := context2, run_world := w2, invoked := invoked r1 @ [opn]\<rparr>)
      | (Inr result, context2, w2) \<Rightarrow>
          (let r2 = r1\<lparr>run_context := context2, run_world := w2, invoked := invoked r1 @ [opn]\<rparr> in
           if \<not> success result then
             (Inl (Error (case result_error result of
                            Some m \<Rightarrow> (if m \<noteq> [] then m else ''Operation failed'')
                          | None \<Rightarrow> ''Operation failed'')), r2)
           else
             run_operations ev ext rest
               (if op_output result \<noteq> JUndefined then
                  r2\<lparr>run_context := context2\<lparr>operationOutputs :=
                        (operationOutputs context2)(step opn \<mapsto> op_output result)\<rparr>\<rparr>
                else r2))))))"

definition saveSceneToDirectory :: "env \<Rightarrow> ExecutionContext \<Rightarrow> error + string" where
  "saveSceneToDirectory ev context =
     (case fs_failure ev (sceneId context) of
        Some m \<Rightarrow> Inl (FileSystemError (''Failed to save scene files: '' @ m))
      | None \<Rightarrow> Inr (scene_dir ev (sceneId context)))"

text \<open>
  What the \<open>catch\<close> block reads from the thrown value. None of the error classes has a
  \<open>step\<close> or an \<open>operation\<close> field, and nothing in the repository sets one on an error.
\<close>

definition error_step :: "error \<Rightarrow> rat option" where
  "error_step e = None"

definition error_operation :: "error \<Rightarrow> string option" where
  "error_operation e = None"

fun findIndex :: "('a \<Rightarrow> bool) \<Rightarrow> 'a list \<Rightarrow> int" where
  "findIndex P [] = - 1"
| "findIndex P (x # xs) =
     (if P x then 0 else (let i = findIndex P xs in if i = - 1 then - 1 else i + 1))"

definition failure :: "Operation list \<Rightarrow> error \<Rightarrow> message" where
  "failure operations e =
     EXECUTION_FAILED
       (let i = findIndex (\<lambda>opn. Some (step opn) = error_step e) operations + 1
        in if i \<noteq> 0 then i else 0)
       (case error_operation e of Some n \<Rightarrow> if n \<noteq> [] then n else ''unknown'' | None \<Rightarrow> ''unknown'')
       (if error_message e \<noteq> [] then error_message e else ''Unknown error occurred'')"

definition executeOperations ::
  "env \<Rightarrow> (string \<Rightarrow> handler) \<Rightarrow> string \<Rightarrow> string \<Rightarrow> Operation list \<Rightarrow> World \<Rightarrow> Run" where
  "executeOperations ev ext sid sname operations w =
     (case run_operations ev ext operations
             \<lparr>run_context = initial_context sid sname operations, run_world = w,
              sent = [], invoked = []\<rparr> of
        (Inl e, r) \<Rightarrow> r\<lparr>sent := sent r @ [failure operations e]\<rparr>
      | (Inr u, r) \<Rightarrow>
          (case validateScene (run_context r) of
             Inl e \<Rightarrow> r\<lparr>sent := sent r @ [failure operations e]\<rparr>
           | Inr u \<Rightarrow>
               (case saveSceneToDirectory ev (run_context r) of
                  Inl e \<Rightarrow> r\<lparr>sent := sent r @ [failure operations e]\<rparr>
                | Inr scenePath \<Rightarrow>
                    let preview = renderScene
                          \<lparr>scene_data = data (run_context r),
                           scene_template = template (run_context r),
                           scene_theme = theme (run_context r)\<rparr>
                    in r\<lparr>sent := sent r @
                         [EXECUTION_COMPLETE (sceneId (run_context r)) scenePath
                            [scenePath @ ''/data.json'', scenePath @ ''/template.json'',
                             scenePath @ ''/theme.json'', scenePath @ ''/scene.json'']
                            preview]\<rparr>)))"

section \<open>Importing text layouts: units and the cap-height correction\<close>

subsection \<open>Double-precision numbers\<close>

text \<open>
  The numbers of \<open>scene_generator.ts\<close> are IEEE 754 doubles. A double is a rational number,
  an infinity or NaN. The two zeros are one value here: the functions embedded below never
  divide by a variable, and nothing else they do tells the zeros apart.
\<close>

datatype double = Finite rat | PosInf | NegInf | NotANumber

text \<open>
  The number of binary digits of a positive integer, and from it the binary exponent of a
  positive rational: the \<open>e\<close> with \<open>2^e \<le> x < 2^(e + 1)\<close>.
\<close>

function bits :: "int \<Rightarrow> nat" where
  "bits n = (if n \<le> 0 then 0 else Suc (bits (n div 2)))"
  by pat_completeness auto
termination by (relation "measure nat") auto

declare bits.simps [simp del]

definition ilog2 :: "rat \<Rightarrow> int" where
  "ilog2 x =
     (let (p, q) = quotient_of x;
          d = int (bits p) - int (bits q)
      in if 2 powi d \<le> x then d else d - 1)"

text \<open>The nearest integer, a tie going to the even one.\<close>

definition round_even :: "rat \<Rightarrow> int" where
  "round_even x =
     (let f = \<lfloor>x\<rfloor>;
          r = x - of_int f
      in if r < 1 / 2 then f else if 1 / 2 < r then f + 1 else if even f then f else f + 1)"

text \<open>
  Rounding to the nearest double, ties to the even significand. The doubles around \<open>x\<close> are
  the multiples of \<open>2^(e - 52)\<close>, \<open>e\<close> the binary exponent of \<open>x\<close>, and of \<open>2^(-1074)\<close> below
  the normal range. A rounded value of exponent 1024 or more is an infinity.
\<close>

definition nearest :: "rat \<Rightarrow> rat" where
  "nearest x =
     (if x = 0 then 0
      else let u = 2 powi (max (ilog2 \<bar>x\<bar> - 52) (- 1074))
           in of_int (round_even (x / u)) * u)"

definition rd :: "rat \<Rightarrow> double" where
  "rd x =
     (let y = nearest x
      in if 1024 \<le> ilog2 \<bar>y\<bar> then (if 0 < y then PosInf else NegInf) else Finite y)"

text \<open>
  The operators \<open>+\<close>, \<open>-\<close>, \<open>*\<close> and \<open>/\<close> on numbers: the exact result, rounded. Division is
  only ever by a constant other than zero, which is the second argument of \<open>div_by\<close>.
\<close>

fun neg :: "double \<Rightarrow> double" where
  "neg (Finite x) = Finite (- x)"
| "neg PosInf = NegInf"
| "neg NegInf = PosInf"
| "neg NotANumber = NotANumber"

fun add :: "double \<Rightarrow> double \<Rightarrow> double" where
  "add (Finite x) (Finite y) = rd (x + y)"
| "add NotANumber b = NotANumber"
| "add a NotANumber = NotANumber"
| "add PosInf NegInf = NotANumber"
| "add NegInf PosInf = NotANumber"
| "add PosInf b = PosInf"
| "add NegInf b = NegInf"
| "add (Finite x) b = b"

definition sub :: "double \<Rightarrow> double \<Rightarrow> double" where
  "sub a b = add a (neg b)"

fun mul :: "double \<Rightarrow> double \<Rightarrow> double" where
  "mul (Finite x) (Finite y) = rd (x * y)"
| "mul NotANumber b = NotANumber"
| "mul a NotANumber = NotANumber"
| "mul (Finite x) b = (if x = 0 then NotANumber else if 0 < x then b else neg b)"
| "mul a (Finite y) = (if y = 0 then NotANumber else if 0 < y then a else neg a)"
| "mul PosInf b = b"
| "mul NegInf b = neg b"

fun div_by :: "double \<Rightarrow> rat \<Rightarrow> double" where
  "div_by (Finite x) c = rd (x / c)"
| "div_by NotANumber c = NotANumber"
| "div_by a c = (if 0 < c then a else neg a)"

text \<open>\<open>Math.round\<close>: the nearest integer, a tie going up.\<close>

fun Math_round :: "double \<Rightarrow> double" where
  "Math_round (Finite x) = Finite (of_int \<lfloor>x + 1 / 2\<rfloor>)"
| "Math_round a = a"

subsection \<open>Units and font metrics\<close>

record TextEntry =
  entry_text :: string
  fontName :: string
  fontSize :: double
  xMm :: double
  yMm :: double
  alignment :: string
  angle :: "double option"
  color :: string
  letterSpacing :: double
  lineSpacing :: double

text \<open>\<open>DPI / 25.4\<close> and \<open>300 / 72\<close>; the literal \<open>25.4\<close> is the double nearest to it.\<close>

definition DPI :: double where "DPI = Finite 300"
definition MM_TO_PX :: double where "MM_TO_PX = div_by DPI (nearest (254 / 10))"
definition PT_TO_PX :: double where "PT_TO_PX = div_by (Finite 300) 72"

definition mmToPx :: "double \<Rightarrow> double" where
  "mmToPx mm = Math_round (mul mm MM_TO_PX)"

definition ptToPx :: "double \<Rightarrow> double" where
  "ptToPx pt = div_by (Math_round (mul (mul pt PT_TO_PX) (Finite 10))) 10"

record FontMetrics =
  ascent :: double
  descent :: double
  capHeight :: double

definition FONT_METRICS :: "string \<Rightarrow> FontMetrics option" where
  "FONT_METRICS key =
     (if key = ''arial'' then
        Some \<lparr>ascent = div_by (Finite 1854) 2048, descent = div_by (Finite 434) 2048,
              capHeight = div_by (Finite 1467) 2048\<rparr>
      else if key = ''montserrat'' then
        Some \<lparr>ascent = div_by (Finite 1006) 1000, descent = div_by (Finite 194) 1000,
              capHeight = div_by (Finite 700) 1000\<rparr>
      else if key = ''_default'' then
        Some \<lparr>ascent = rd (9 / 10), descent = rd (2 / 10), capHeight = rd (71 / 100)\<rparr>
      else None)"

text \<open>
  \<open>FONT_METRICS[name.toLowerCase()] || FONT_METRICS._default\<close>. The table is a plain object:
  the two lower-case names it inherits (\<open>constructor\<close>, \<open>__proto__\<close>) read a value that is
  truthy and has no metrics, modelled as \<open>None\<close>; arithmetic on its missing metrics gives
  NaN.
\<close>

definition getFontMetrics :: "string \<Rightarrow> FontMetrics option" where
  "getFontMetrics name =
     (let key = toLowerCase name in
      if key = ''constructor'' \<or> key = ''__proto__'' then None
      else case FONT_METRICS key of
             Some m \<Rightarrow> Some m
           | None \<Rightarrow> FONT_METRICS ''_default'')"

definition capHeightOffsetPx :: "string \<Rightarrow> double \<Rightarrow> double \<Rightarrow> double" where
  "capHeightOffsetPx name fontSizePx lineHeight =
     (case getFontMetrics name of
        None \<Rightarrow> NotANumber
      | Some m \<Rightarrow>
          let halfLeading =
                div_by (mul (sub (sub lineHeight (ascent m)) (descent m)) fontSizePx) 2
          in add halfLeading (mul (sub (ascent m) (capHeight m)) fontSizePx))"

text \<open>
  The vertical position \<open>generateScene\<close> computes for a text entry (\<open>yPx\<close>, written to the
  style as \<open>top\<close>), from the lines
  \<open>fontSizePx = ptToPx(entry.fontSize)\<close>,
  \<open>yOffsetPx = capHeightOffsetPx(entry.fontName, fontSizePx, entry.lineSpacing)\<close> and
  \<open>yPx = Math.round((mmToPx(entry.yMm) - yOffsetPx) * 10) / 10\<close>.
\<close>

definition entry_yPx :: "TextEntry \<Rightarrow> double" where
  "entry_yPx entry =
     (let fontSizePx = ptToPx (fontSize entry);
          yOffsetPx = capHeightOffsetPx (fontName entry) fontSizePx (lineSpacing entry)
      in div_by (Math_round (mul (sub (mmToPx (yMm entry)) yOffsetPx) (Finite 10))) 10)"

section \<open>Reference definitions and sample inputs\<close>

text \<open>
  What follows is not translated from the source. It holds the notions the statements
  below compare the code with, and the concrete inputs used to exercise it.
\<close>

subsection \<open>Anchors\<close>




subsection \<open>Colors\<close>



definition env0 :: env where
  "env0 = \<lparr>now36 = (\<lambda>k. ''t'' @ nat_str k), rand36 = (\<lambda>k. ''r'' @ nat_str k),
           head_ok = (\<lambda>u. True), scene_dir = (\<lambda>i. ''/cwd/scenes/'' @ i),
           fs_failure = (\<lambda>i. None)\<rparr>"

definition world0 :: World where
  "world0 = \<lparr>next_id = 0, googleFontCache = Map.empty\<rparr>"



definition gray :: "nat \<Rightarrow> Color" where
  "gray n = \<lparr>c_id = ''gray'' @ nat_str n, c_name = ''Gray'',
             c_r = Num (of_nat n), c_g = Num (of_nat n), c_b = Num (of_nat n), c_a = Num 1\<rparr>"

definition full_theme :: Theme where
  "full_theme =
     \<lparr>theme_id = ''t'', theme_name = ''T'', color_palette = map gray [0 ..< 16], font_palette = []\<rparr>"


subsection \<open>Placeholders\<close>

text \<open>
  The number a string of decimal digits denotes, place by place: each digit counts the
  power of ten of its position.
\<close>

definition decimal_digits :: string where
  "decimal_digits = ''0123456789''"

fun digit_value :: "string \<Rightarrow> char \<Rightarrow> nat" where
  "digit_value [] c = 0"
| "digit_value (d # ds) c = (if c = d then 0 else Suc (digit_value ds c))"

fun decimal :: "string \<Rightarrow> nat" where
  "decimal [] = 0"
| "decimal (c # cs) = digit_value decimal_digits c * 10 ^ length cs + decimal cs"

text \<open>A string that is exactly \<open>$output_of_step_N\<close>, \<open>N\<close> written with decimal digits.\<close>

definition is_placeholder :: "string \<Rightarrow> nat \<Rightarrow> bool" where
  "is_placeholder s n \<longleftrightarrow>
     (\<exists>ds. s = ''$output_of_step_'' @ ds \<and> ds \<noteq> [] \<and> set ds \<subseteq> set decimal_digits \<and>
           n = decimal ds)"

text \<open>The step a string refers to, if it is a placeholder.\<close>

fun after_prefix :: "string \<Rightarrow> string \<Rightarrow> string option" where
  "after_prefix [] s = Some s"
| "after_prefix (p # ps) [] = None"
| "after_prefix (p # ps) (c # cs) = (if p = c then after_prefix ps cs else None)"

definition step_ref :: "string \<Rightarrow> nat option" where
  "step_ref s =
     (case after_prefix ''$output_of_step_'' s of
        None \<Rightarrow> None
      | Some ds \<Rightarrow>
          if ds \<noteq> [] \<and> list_all (\<lambda>c. c \<in> set decimal_digits) ds then Some (decimal ds)
          else None)"

text \<open>A step with no recorded output: \<open>Map.get\<close> reads \<open>undefined\<close>.\<close>

definition unrecorded :: "(rat \<Rightarrow> json option) \<Rightarrow> nat \<Rightarrow> bool" where
  "unrecorded outs n = (outs (of_nat n) = None \<or> outs (of_nat n) = Some JUndefined)"

text \<open>The steps a value refers to, in the order the source visits its strings.\<close>

fun placeholders :: "json \<Rightarrow> nat list" where
  "placeholders (JStr s) = (case step_ref s of Some n \<Rightarrow> [n] | None \<Rightarrow> [])"
| "placeholders (JArr xs) = concat (map placeholders xs)"
| "placeholders (JObj kvs) = concat (map (\<lambda>(k, v). placeholders v) kvs)"
| "placeholders v = []"

text \<open>
  The value with every placeholder string replaced by the recorded output of its step,
  through arrays and objects; nothing else is touched.
\<close>

fun subst :: "(rat \<Rightarrow> json option) \<Rightarrow> json \<Rightarrow> json" where
  "subst outs (JStr s) =
     (case step_ref s of
        Some n \<Rightarrow> (case outs (of_nat n) of Some output \<Rightarrow> output | None \<Rightarrow> JStr s)
      | None \<Rightarrow> JStr s)"
| "subst outs (JArr xs) = JArr (map (subst outs) xs)"
| "subst outs (JObj kvs) = JObj (map (\<lambda>(k, v). (k, subst outs v)) kvs)"
| "subst outs v = v"

definition no_output :: "nat \<Rightarrow> error" where
  "no_output n = ValidationError (''No output found for step '' @ nat_str n)"

text \<open>The keys of every object of a value, nested ones included.\<close>

fun object_keys :: "json \<Rightarrow> string list" where
  "object_keys (JArr xs) = concat (map object_keys xs)"
| "object_keys (JObj kvs) = concat (map (\<lambda>(k, v). k # object_keys v) kvs)"
| "object_keys v = []"

text \<open>
  The parameter values on which the embedding follows the source to the end: no object
  has a key \<open>__proto__\<close>, and every step referred to is a number the runtime holds exactly.
\<close>

definition followed :: "json \<Rightarrow> bool" where
  "followed v \<longleftrightarrow>
     ''__proto__'' \<notin> set (object_keys v) \<and> list_all (\<lambda>n. n \<le> 2 ^ 53) (placeholders v)"

definition outs2 :: "rat \<Rightarrow> json option" where
  "outs2 = (\<lambda>n. if n = 2 then Some (JStr ''https://x/img.png'')
                else if n = 120 then Some (JObj [(''url'', JStr ''$output_of_step_9'')])
                else None)"

definition params2 :: json where
  "params2 =
     JObj [(''input_image'', JStr ''$output_of_step_2''),
           (''tags'', JArr [JStr ''$output_of_step_0120'', JStr ''see $output_of_step_2'', JNum 3]),
           (''visible'', JBool True)]"

text \<open>Parameters with an own key \<open>__proto__\<close>, as \<open>JSON.parse\<close> produces them.\<close>

definition params_proto :: json where
  "params_proto = JObj [(''__proto__'', JNum 1), (''width'', JNum 800)]"

subsection \<open>Trees\<close>

text \<open>
  The ids \<open>findElement\<close> can reach, in the order it visits them: an element, then the
  children of a container, then the following siblings.
\<close>

fun rids :: "Element list \<Rightarrow> string list" where
  "rids [] = []"
| "rids (Element eid ty did sh sv iu st ch # rest) =
     eid # (case ch of Some cs \<Rightarrow> if ty = T_container then rids cs else [] | None \<Rightarrow> []) @ rids rest"


text \<open>The template once the element \<open>eid\<close> has been taken out of it.\<close>

definition detached :: "Template \<Rightarrow> string \<Rightarrow> Template" where
  "detached t eid = t\<lparr>elements := snd (removeElementFromArray (elements t) eid)\<rparr>"


definition leaf :: "string \<Rightarrow> ElementType \<Rightarrow> Element" where
  "leaf i ty = Element i ty None None None None None None"

definition box :: "string \<Rightarrow> Element list \<Rightarrow> Element" where
  "box i cs = Element i T_container None None None None None (Some cs)"

definition tree0 :: Template where
  "tree0 =
     \<lparr>template_id = ''t'', template_name = ''T'',
      canvas = \<lparr>canvas_width = JNum 800, canvas_height = JNum 600\<rparr>,
      elements = [leaf ''bg'' T_shape, box ''outer'' [leaf ''a'' T_shape, box ''inner'' []],
                  leaf ''b'' T_image]\<rparr>"

text \<open>
  Every element of a forest, children of any element included: the elements \<open>checkElement\<close>
  visits. An element is dangling when it is a \<open>data_item\<close> with a non-empty \<open>data_item_id\<close>
  that is not among the given ids.
\<close>

fun all_elements :: "Element list \<Rightarrow> Element list" where
  "all_elements [] = []"
| "all_elements (Element eid ty did sh sv iu st ch # rest) =
     Element eid ty did sh sv iu st ch #
     (case ch of Some cs \<Rightarrow> all_elements cs | None \<Rightarrow> []) @ all_elements rest"

definition dangling :: "string list \<Rightarrow> Element \<Rightarrow> bool" where
  "dangling ids e =
     (element_type e = T_data_item \<and> data_item_id e \<noteq> None \<and> data_item_id e \<noteq> Some [] \<and>
      the (data_item_id e) \<notin> set ids)"

definition ext0 :: "string \<Rightarrow> handler" where
  "ext0 name = not_implemented name"

subsection \<open>Sample runs\<close>

definition ops_neg :: "Operation list" where
  "ops_neg = [\<lparr>step = 1, operation = ''create_canvas'',
               parameters = JObj [(''width'', JNum (- 5)), (''height'', JNum 100)]\<rparr>]"

definition start :: "string \<Rightarrow> string \<Rightarrow> Operation list \<Rightarrow> World \<Rightarrow> Run" where
  "start sid sname operations w =
     \<lparr>run_context = initial_context sid sname operations, run_world = w, sent = [], invoked = []\<rparr>"

text \<open>A scene whose only element, inside two containers, refers to a data item that is not there.\<close>

definition ctx_dangling :: ExecutionContext where
  "ctx_dangling =
     (initial_context ''s'' ''S'' [])
       \<lparr>template := (template (initial_context ''s'' ''S'' []))
          \<lparr>elements := [box ''outer'' [box ''inner''
             [Element ''img'' T_data_item (Some ''data_9'') None None None None None]]]\<rparr>\<rparr>"

text \<open>
  An instance of the handlers that are left as parameters: one that zeroes the canvas and
  reports success.
\<close>

definition ext_zero_canvas :: "string \<Rightarrow> handler" where
  "ext_zero_canvas name ev context params w =
     (Inr (ok JUndefined),
      context\<lparr>template := (template context)
                 \<lparr>canvas := \<lparr>canvas_width = JNum 0, canvas_height = JNum 0\<rparr>\<rparr>\<rparr>,
      w)"

definition ops_zero :: "Operation list" where
  "ops_zero = [\<lparr>step = 1, operation = ''set_flex_layout'', parameters = JObj []\<rparr>]"

subsection \<open>Class names\<close>









subsection \<open>The cap-height correction\<close>

text \<open>
  The metrics of a font family as fractions of em, by its lower-cased name: ascent,
  descent and cap height. Two names have none, \<open>constructor\<close> and \<open>__proto__\<close>; every
  other name outside the table has the fallback triple.
\<close>

definition family_metrics :: "string \<Rightarrow> (rat \<times> rat \<times> rat) option" where
  "family_metrics key =
     (if key = ''constructor'' \<or> key = ''__proto__'' then None
      else if key = ''arial'' then Some (1854 / 2048, 434 / 2048, 1467 / 2048)
      else if key = ''montserrat'' then Some (1006 / 1000, 194 / 1000, 700 / 1000)
      else Some (9 / 10, 2 / 10, 71 / 100))"

text \<open>
  The correction as the specification writes it, in exact arithmetic:
  \<open>halfLeading + (ascent - capHeight) * fontSizePx\<close> with
  \<open>halfLeading = (lineHeight - ascent - descent) * fontSizePx / 2\<close>.
\<close>

definition halfLeading :: "rat \<times> rat \<times> rat \<Rightarrow> rat \<Rightarrow> rat \<Rightarrow> rat" where
  "halfLeading m fontSizePx lineHeight =
     (case m of (a, d, c) \<Rightarrow> (lineHeight - a - d) * fontSizePx / 2)"

definition offset_formula :: "rat \<times> rat \<times> rat \<Rightarrow> rat \<Rightarrow> rat \<Rightarrow> rat" where
  "offset_formula m fontSizePx lineHeight =
     (case m of (a, d, c) \<Rightarrow> halfLeading m fontSizePx lineHeight + (a - c) * fontSizePx)"

text \<open>
  A text entry of font size \<open>pt\<close>, line height \<open>lh\<close> and vertical position \<open>y\<close> mm, of the
  sizes a layout has: up to 1000 pt, a line height up to 100, within 10 m of the origin.
\<close>

definition in_range :: "TextEntry \<Rightarrow> rat \<Rightarrow> rat \<Rightarrow> rat \<Rightarrow> bool" where
  "in_range entry pt lh y \<longleftrightarrow>
     fontSize entry = Finite pt \<and> lineSpacing entry = Finite lh \<and> yMm entry = Finite y \<and>
     0 \<le> pt \<and> pt \<le> 1000 \<and> 0 \<le> lh \<and> lh \<le> 100 \<and> \<bar>y\<bar> \<le> 10000"

text \<open>
  \<open>Hi - Arial 12, x 10 mm, y 10 mm, left, line-spacing 1.4\<close>;
  \<open>Save the date - Holiday 30.6, x 52 mm, y 10 mm, centered, line-spacing 1\<close>, where the
  difference to round lies, in doubles, just below a tie; and an entry whose family is
  \<open>Constructor\<close>.
\<close>

definition entry1 :: TextEntry where
  "entry1 = \<lparr>entry_text = ''Hi'', fontName = ''Arial'', fontSize = Finite 12, xMm = Finite 10,
              yMm = Finite 10, alignment = ''left'', angle = None, color = ''#000000'',
              letterSpacing = Finite 0, lineSpacing = rd (14 / 10)\<rparr>"

definition entry2 :: TextEntry where
  "entry2 = \<lparr>entry_text = ''Save the date'', fontName = ''Holiday'', fontSize = rd (306 / 10),
              xMm = Finite 52, yMm = Finite 10, alignment = ''centered'', angle = None,
              color = ''#4B6DAA'', letterSpacing = Finite 50, lineSpacing = Finite 1\<rparr>"

definition entry3 :: TextEntry where
  "entry3 = entry1\<lparr>fontName := ''Constructor''\<rparr>"

text \<open>The two-step scenario: a yellow canvas, then a centered text layer.\<close>

definition ops_c7 :: "Operation list" where
  "ops_c7 =
     [\<lparr>step = 1, operation = ''create_canvas'',
       parameters = JObj [(''width'', JNum 1240), (''height'', JNum 1748),
                          (''background_color'', JStr ''#FFFF00'')]\<rparr>,
      \<lparr>step = 2, operation = ''add_text_layer'',
       parameters = JObj [(''layer_name'', JStr ''title''), (''text'', JStr ''Hello''),
                          (''anchor'', JStr ''center'')]\<rparr>]"


definition yellow_entry :: "string \<Rightarrow> Color" where
  "yellow_entry i = \<lparr>c_id = i, c_name = ''color_1'', c_r = Num 255, c_g = Num 255, c_b = Num 0, c_a = Num 1\<rparr>"

text \<open>Five steps of which the third, an unimplemented image operation, fails.\<close>

definition ops_c1 :: "Operation list" where
  "ops_c1 =
     [\<lparr>step = 1, operation = ''create_canvas'',
       parameters = JObj [(''width'', JNum 1240), (''height'', JNum 1748)]\<rparr>,
      \<lparr>step = 2, operation = ''create_canvas'',
       parameters = JObj [(''width'', JNum 800), (''height'', JNum 600)]\<rparr>,
      \<lparr>step = 3, operation = ''resize_image'', parameters = JObj [(''width'', JNum 100)]\<rparr>,
      \<lparr>step = 4, operation = ''add_text_layer'',
       parameters = JObj [(''layer_name'', JStr ''title''), (''text'', JStr ''Hello'')]\<rparr>,
      \<lparr>step = 5, operation = ''crop_image'', parameters = JObj []\<rparr>]"

text \<open>The progress notification of an operation in a run of \<open>n\<close> steps.\<close>

definition progress :: "nat \<Rightarrow> Operation \<Rightarrow> message" where
  "progress n opn =
     EXECUTION_PROGRESS (step opn) n (operation opn) (''Executing '' @ operation opn @ ''...'')"

section \<open>Anchor positioning: the rule and the accepted names\<close>







section \<open>The color palette: deduplication and the capacity bound\<close>






lemma ensureColor_full:
  assumes "hexToRGBA col = Inr v" "find (same_rgba v) (color_palette th) = None"
    "length (color_palette th) \<ge> 16"
  shows "ensureColorInTheme ev th col k =
     (Inl (ValidationError ''Color palette limit reached (max 16 colors)''), th, k)"
  using assms by (simp add: ensureColorInTheme_def Let_def)






text \<open>
  C3: for every theme whose color palette holds 16 entries and every color literal whose
  (r,g,b,a) matches none of them, \<open>ensureColorInTheme\<close> throws the capacity ValidationError
  and the theme it leaves is the theme it was given, with its 16 entries: nothing is
  appended.
\<close>

theorem C3_full_palette_rejects:
  assumes full: "length (color_palette th) = 16"
    and parsed: "hexToRGBA col = Inr v"
    and fresh: "\<forall>c \<in> set (color_palette th). \<not> same_rgba v c"
  shows "ensureColorInTheme ev th col k =
           (Inl (ValidationError ''Color palette limit reached (max 16 colors)''), th, k) \<and>
         length (color_palette (fst (snd (ensureColorInTheme ev th col k)))) = 16"
proof -
  have "find (same_rgba v) (color_palette th) = None"
    using fresh by (simp add: find_None_iff)
  then have "ensureColorInTheme ev th col k =
           (Inl (ValidationError ''Color palette limit reached (max 16 colors)''), th, k)"
    using parsed full by (intro ensureColor_full) simp_all
  then show ?thesis using full by simp
qed

theorem C3_full_palette_rejects_witness:
  "length (color_palette full_theme) = 16 \<and>
   ensureColorInTheme env0 full_theme ''#FF0000'' 7 =
     (Inl (ValidationError ''Color palette limit reached (max 16 colors)''), full_theme, 7)"
proof -
  let ?v = "\<lparr>rgba_r = Num 255, rgba_g = Num 0, rgba_b = Num 0, rgba_a = Num 1\<rparr>"
  have full: "length (color_palette full_theme) = 16" by (simp add: full_theme_def)
  have parsed: "hexToRGBA ''#FF0000'' = Inr ?v" by code_simp
  have fresh: "\<forall>c \<in> set (color_palette full_theme). \<not> same_rgba ?v c"
    by (simp add: full_theme_def same_rgba_def gray_def)
  show ?thesis
    using C3_full_palette_rejects [OF full parsed fresh, of env0 7] full by simp
qed

section \<open>Placeholder resolution\<close>

lemma digit_chars:
  "char_of (48::nat) = CHR ''0''" "char_of (49::nat) = CHR ''1''" "char_of (50::nat) = CHR ''2''"
  "char_of (51::nat) = CHR ''3''" "char_of (52::nat) = CHR ''4''" "char_of (53::nat) = CHR ''5''"
  "char_of (54::nat) = CHR ''6''" "char_of (55::nat) = CHR ''7''" "char_of (56::nat) = CHR ''8''"
  "char_of (57::nat) = CHR ''9''"
  by code_simp+

lemma is_digit_iff: "is_digit c \<longleftrightarrow> c \<in> set decimal_digits"
proof
  define n where "n = (of_char c :: nat)"
  assume "is_digit c"
  then have "48 \<le> n" "n \<le> 57"
    by (simp_all add: is_digit_def Let_def n_def)
  then have "n = 48 \<or> n = 49 \<or> n = 50 \<or> n = 51 \<or> n = 52 \<or> n = 53 \<or> n = 54 \<or> n = 55 \<or>
             n = 56 \<or> n = 57"
    by arith
  moreover have "c = char_of n" by (simp add: n_def)
  ultimately show "c \<in> set decimal_digits"
    by (auto simp: digit_chars decimal_digits_def)
next
  assume "c \<in> set decimal_digits"
  then show "is_digit c"
    by (auto simp: decimal_digits_def is_digit_def)
qed

lemma digit_value_code:
  "c \<in> set decimal_digits \<Longrightarrow> digit_value decimal_digits c = of_char c - 48"
  by (auto simp: decimal_digits_def)

lemma parse_dec_gen:
  "set ds \<subseteq> set decimal_digits \<Longrightarrow>
     foldl (\<lambda>acc c. 10 * acc + (of_char c - 48)) a ds = a * 10 ^ length ds + decimal ds"
proof (induction ds arbitrary: a)
  case Nil
  then show ?case by simp
next
  case (Cons c cs)
  then have "digit_value decimal_digits c = of_char c - 48"
    by (intro digit_value_code) simp
  with Cons show ?case by (simp add: algebra_simps)
qed

lemma parse_dec_decimal:
  "set ds \<subseteq> set decimal_digits \<Longrightarrow>
     parse_dec ds = (if decimal ds \<le> 2 ^ 53 then Some (decimal ds) else None)"
  by (simp add: parse_dec_def parse_dec_gen MAX_EXACT_STEP_def)

lemma after_prefix_iff: "after_prefix p s = Some ds \<longleftrightarrow> s = p @ ds"
  by (induction p s rule: after_prefix.induct) auto

lemma prefix16:
  "take 16 s = ''$output_of_step_'' \<and> drop 16 s = ds \<longleftrightarrow> s = ''$output_of_step_'' @ ds"
proof -
  have len: "length ''$output_of_step_'' = 16" by simp
  show ?thesis
    using append_eq_conv_conj [of "''$output_of_step_''" ds s] unfolding len by auto
qed

lemma match_placeholder_step_ref:
  "match_placeholder s =
     map_option (\<lambda>n. if n \<le> 2 ^ 53 then Some n else None) (step_ref s)"
proof (cases "after_prefix ''$output_of_step_'' s")
  case None
  have "take 16 s \<noteq> ''$output_of_step_''"
  proof
    assume "take 16 s = ''$output_of_step_''"
    then have "s = ''$output_of_step_'' @ drop 16 s" by (simp only: prefix16 [symmetric])
    then have "after_prefix ''$output_of_step_'' s = Some (drop 16 s)"
      by (simp only: after_prefix_iff)
    with None show False by simp
  qed
  with None show ?thesis by (simp add: match_placeholder_def step_ref_def)
next
  case (Some ds)
  then have s: "s = ''$output_of_step_'' @ ds" by (simp only: after_prefix_iff)
  then have t: "take 16 s = ''$output_of_step_''" "drop 16 s = ds"
    using prefix16 [of s ds] by simp_all
  have "is_digit = (\<lambda>c. c \<in> set decimal_digits)"
    by (rule ext) (rule is_digit_iff)
  then have d: "list_all is_digit ds \<longleftrightarrow> list_all (\<lambda>c. c \<in> set decimal_digits) ds"
    by simp
  show ?thesis
  proof (cases "ds \<noteq> [] \<and> list_all (\<lambda>c. c \<in> set decimal_digits) ds")
    case True
    then have "set ds \<subseteq> set decimal_digits" by (auto simp: list_all_iff)
    then have "parse_dec ds = (if decimal ds \<le> 2 ^ 53 then Some (decimal ds) else None)"
      by (rule parse_dec_decimal)
    with True Some show ?thesis
      by (simp add: match_placeholder_def step_ref_def t d)
  next
    case False
    with Some show ?thesis
      by (auto simp add: match_placeholder_def step_ref_def t d)
  qed
qed

lemma step_ref_iff: "step_ref s = Some n \<longleftrightarrow> is_placeholder s n"
proof
  assume "step_ref s = Some n"
  then obtain ds where "after_prefix ''$output_of_step_'' s = Some ds" "ds \<noteq> []"
      "list_all (\<lambda>c. c \<in> set decimal_digits) ds" "n = decimal ds"
    by (auto simp: step_ref_def split: option.splits if_splits)
  then show "is_placeholder s n"
    unfolding is_placeholder_def by (auto simp: after_prefix_iff list_all_iff)
next
  assume "is_placeholder s n"
  then obtain ds where "s = ''$output_of_step_'' @ ds" "ds \<noteq> []" "set ds \<subseteq> set decimal_digits"
      "n = decimal ds"
    unfolding is_placeholder_def by blast
  moreover from this have "after_prefix ''$output_of_step_'' s = Some ds"
    by (simp only: after_prefix_iff)
  ultimately show "step_ref s = Some n"
    by (auto simp: step_ref_def list_all_iff)
qed

lemma find_append2:
  "find P (xs @ ys) = (case find P xs of Some x \<Rightarrow> Some x | None \<Rightarrow> find P ys)"
  by (induction xs) auto

lemma followed_arr: "followed (JArr xs) \<longleftrightarrow> (\<forall>x \<in> set xs. followed x)"
  by (auto simp: followed_def list_all_iff)

lemma followed_obj:
  "followed (JObj kvs) \<longleftrightarrow> (\<forall>(k, v) \<in> set kvs. k \<noteq> ''__proto__'' \<and> followed v)"
  by (fastforce simp: followed_def list_all_iff)

lemma followed_str:
  "followed (JStr s) \<Longrightarrow> step_ref s = Some n \<Longrightarrow> match_placeholder s = Some (Some n)"
  by (simp add: followed_def match_placeholder_step_ref)

lemma resolve_all:
  "followed v \<Longrightarrow>
   resolveParameters outs v =
     (case find (unrecorded outs) (placeholders v) of
        Some n \<Rightarrow> Inl (no_output n) | None \<Rightarrow> Inr (subst outs v))"
  "\<forall>x \<in> set xs. followed x \<Longrightarrow>
   resolve_items outs xs =
     (case find (unrecorded outs) (concat (map placeholders xs)) of
        Some n \<Rightarrow> Inl (no_output n) | None \<Rightarrow> Inr (map (subst outs) xs))"
  "\<forall>(k, v) \<in> set kvs. k \<noteq> ''__proto__'' \<and> followed v \<Longrightarrow>
   resolve_entries outs kvs =
     (case find (unrecorded outs) (concat (map (\<lambda>(k, v). placeholders v) kvs)) of
        Some n \<Rightarrow> Inl (no_output n) | None \<Rightarrow> Inr (map (\<lambda>(k, v). (k, subst outs v)) kvs))"
proof (induction outs v and outs xs and outs kvs
    rule: resolveParameters_resolve_items_resolve_entries.induct)
  case (1 outs s)
  show ?case
  proof (cases "step_ref s")
    case None
    then show ?thesis by (simp add: match_placeholder_step_ref)
  next
    case (Some n)
    with "1.prems" have "match_placeholder s = Some (Some n)" by (rule followed_str)
    with Some show ?thesis
      by (auto simp: unrecorded_def no_output_def split: option.splits json.splits)
  qed
next
  case (2 outs xs)
  then show ?case by (simp add: followed_arr split: option.splits)
next
  case (3 outs kvs)
  then show ?case by (simp add: followed_obj split: option.splits)
next
  case (9 outs x xs)
  then show ?case by (simp add: find_append2 split: option.splits)
next
  case (11 outs key v kvs)
  then show ?case by (simp add: find_append2 split: option.splits)
qed (simp_all split: option.splits)

lemma subst_no_placeholders:
  "placeholders v = [] \<Longrightarrow> subst outs v = v"
proof (induction v rule: placeholders.induct)
  case (1 s)
  then show ?case by (simp split: option.splits)
next
  case (2 xs)
  then show ?case by (simp add: map_idI)
next
  case (3 kvs)
  then have "\<And>k v. (k, v) \<in> set kvs \<Longrightarrow> subst outs v = v" by fastforce
  then have "map (\<lambda>(k, v). (k, subst outs v)) kvs = kvs"
    by (intro map_idI) auto
  then show ?case by simp
qed simp_all

text \<open>
  C4 holds on every parameter value but those with an object key \<open>__proto__\<close>, where the
  loop of \<open>resolveParameters\<close> that copies the entries into a fresh object loses the entry:
  the parameters \<open>{"__proto__": 1, "width": 800}\<close>, which hold no placeholder, come back
  as \<open>{"width": 800}\<close> and not unchanged. On every value without such a key, whose
  placeholders refer to steps up to \<open>2^53\<close>, \<open>resolveParameters\<close> fails with the
  ValidationError naming the first referenced step that has no recorded output, and
  otherwise returns the value in which each string that is exactly \<open>$output_of_step_N\<close> is
  replaced by the output recorded for step \<open>N\<close>, through nested arrays and objects. The
  strings taken for placeholders are exactly those made of the prefix and one or more
  decimal digits, \<open>N\<close> being the number the digits denote, and a value without such a
  string comes back unchanged.
\<close>

theorem C4_resolveParameters:
  "resolveParameters outs params_proto = Inr (JObj [(''width'', JNum 800)]) \<and>
   (followed v \<longrightarrow>
      resolveParameters outs v =
        (case find (unrecorded outs) (placeholders v) of
           Some n \<Rightarrow> Inl (ValidationError (''No output found for step '' @ nat_str n))
         | None \<Rightarrow> Inr (subst outs v))) \<and>
   (match_placeholder s = Some (Some n) \<longleftrightarrow> is_placeholder s n \<and> n \<le> 2 ^ 53) \<and>
   (match_placeholder s = None \<longleftrightarrow> (\<forall>k. \<not> is_placeholder s k)) \<and>
   (followed v \<and> placeholders v = [] \<longrightarrow> resolveParameters outs v = Inr v)"
proof -
  have a: "resolveParameters outs params_proto = Inr (JObj [(''width'', JNum 800)])"
    by (simp add: params_proto_def)
  have b: "followed v \<longrightarrow>
      resolveParameters outs v =
        (case find (unrecorded outs) (placeholders v) of
           Some n \<Rightarrow> Inl (ValidationError (''No output found for step '' @ nat_str n))
         | None \<Rightarrow> Inr (subst outs v))"
    using resolve_all(1) [of v outs] unfolding no_output_def by simp
  have c: "match_placeholder s = Some (Some n) \<longleftrightarrow> is_placeholder s n \<and> n \<le> 2 ^ 53"
    unfolding match_placeholder_step_ref step_ref_iff [symmetric]
    by (cases "step_ref s") auto
  have c': "match_placeholder s = None \<longleftrightarrow> (\<forall>k. \<not> is_placeholder s k)"
    unfolding match_placeholder_step_ref step_ref_iff [symmetric]
    by (cases "step_ref s") auto
  have d: "followed v \<and> placeholders v = [] \<longrightarrow> resolveParameters outs v = Inr v"
    using resolve_all(1) [of v outs] subst_no_placeholders [of v outs] by simp
  from a b c c' d show ?thesis by (intro conjI)
qed

theorem C4_resolveParameters_witness:
  "resolveParameters outs2 (JStr ''$output_of_step_2'') = Inr (JStr ''https://x/img.png'') \<and>
   resolveParameters outs2 (JStr ''$output_of_step_9'') =
     Inl (ValidationError ''No output found for step 9'') \<and>
   resolveParameters outs2 (JStr ''$output_of_step_9007199254740992'') =
     Inl (ValidationError ''No output found for step 9007199254740992'') \<and>
   resolveParameters outs2 params2 =
     Inr (JObj [(''input_image'', JStr ''https://x/img.png''),
                (''tags'', JArr [JObj [(''url'', JStr ''$output_of_step_9'')],
                                 JStr ''see $output_of_step_2'', JNum 3]),
                (''visible'', JBool True)]) \<and>
   resolveParameters outs2 (JArr [JNum 1, JStr ''$output_of_step_'', JStr ''$output_of_step_2 '']) =
     Inr (JArr [JNum 1, JStr ''$output_of_step_'', JStr ''$output_of_step_2 '']) \<and>
   is_placeholder ''$output_of_step_0120'' 120"
proof -
  note ev = step_ref_def decimal_digits_def followed_def unrecorded_def outs2_def params2_def
  have s1: "step_ref ''$output_of_step_2'' = Some 2" by (simp add: ev)
  have s2: "step_ref ''$output_of_step_9'' = Some 9" by (simp add: ev)
  have s3: "step_ref ''$output_of_step_9007199254740992'' = Some 9007199254740992"
    by (simp add: ev)
  have s4: "step_ref ''$output_of_step_0120'' = Some 120" by (simp add: ev)
  have s5: "step_ref ''see $output_of_step_2'' = None" "step_ref ''$output_of_step_'' = None"
    "step_ref ''$output_of_step_2 '' = None"
    by (simp_all add: ev)
  have n1: "nat_str 9 = ''9''"
    by (simp add: nat_str.simps digit_char_def digit_chars)
  have n2: "nat_str 9007199254740992 = ''9007199254740992''"
    by (simp add: nat_str.simps digit_char_def digit_chars)
  have f1: "followed (JStr ''$output_of_step_2'')" by (simp add: followed_def s1)
  have f2: "followed (JStr ''$output_of_step_9'')" by (simp add: followed_def s2)
  have f3: "followed (JStr ''$output_of_step_9007199254740992'')" by (simp add: followed_def s3)
  have f4: "followed params2" by (simp add: followed_def params2_def s1 s4 s5)
  have f5: "followed (JArr [JNum 1, JStr ''$output_of_step_'', JStr ''$output_of_step_2 ''])"
    "placeholders (JArr [JNum 1, JStr ''$output_of_step_'', JStr ''$output_of_step_2 '']) = []"
    by (simp_all add: followed_def s5)
  have r1: "resolveParameters outs2 (JStr ''$output_of_step_2'') = Inr (JStr ''https://x/img.png'')"
    using C4_resolveParameters [of outs2 "JStr ''$output_of_step_2''" "[]" 0,
        THEN conjunct2, THEN conjunct1, THEN mp, OF f1]
    by (simp add: s1 unrecorded_def outs2_def)
  have r2: "resolveParameters outs2 (JStr ''$output_of_step_9'') =
              Inl (ValidationError ''No output found for step 9'')"
    using C4_resolveParameters [of outs2 "JStr ''$output_of_step_9''" "[]" 0,
        THEN conjunct2, THEN conjunct1, THEN mp, OF f2]
    by (simp add: s2 n1 unrecorded_def outs2_def)
  have r3: "resolveParameters outs2 (JStr ''$output_of_step_9007199254740992'') =
              Inl (ValidationError ''No output found for step 9007199254740992'')"
    using C4_resolveParameters [of outs2 "JStr ''$output_of_step_9007199254740992''" "[]" 0,
        THEN conjunct2, THEN conjunct1, THEN mp, OF f3]
    by (simp add: s3 n2 unrecorded_def outs2_def)
  have r4: "resolveParameters outs2 params2 =
     Inr (JObj [(''input_image'', JStr ''https://x/img.png''),
                (''tags'', JArr [JObj [(''url'', JStr ''$output_of_step_9'')],
                                 JStr ''see $output_of_step_2'', JNum 3]),
                (''visible'', JBool True)])"
    using C4_resolveParameters [of outs2 params2 "[]" 0,
        THEN conjunct2, THEN conjunct1, THEN mp, OF f4]
    by (simp add: params2_def s1 s4 s5 unrecorded_def outs2_def)
  have r5: "resolveParameters outs2 (JArr [JNum 1, JStr ''$output_of_step_'', JStr ''$output_of_step_2 '']) =
     Inr (JArr [JNum 1, JStr ''$output_of_step_'', JStr ''$output_of_step_2 ''])"
    by (rule C4_resolveParameters [of outs2 _ "[]" 0,
        THEN conjunct2, THEN conjunct2, THEN conjunct2, THEN conjunct2, THEN mp, OF conjI, OF f5])
  have m: "match_placeholder ''$output_of_step_0120'' = Some (Some 120)"
    by (simp add: match_placeholder_step_ref s4)
  have r6: "is_placeholder ''$output_of_step_0120'' 120"
    using C4_resolveParameters [of outs2 JNull "''$output_of_step_0120''" 120,
        THEN conjunct2, THEN conjunct2, THEN conjunct1] m
    by simp
  from r1 r2 r3 r4 r5 r6 show ?thesis by (intro conjI)
qed

section \<open>Moving an element into a container\<close>

lemma findElement_None_iff: "findElement es i = None \<longleftrightarrow> i \<notin> set (rids es)"
  by (induction es i rule: findElement.induct) (auto split: option.splits)

lemma findElement_id: "findElement es i = Some e \<Longrightarrow> element_id e = i"
  by (induction es i rule: findElement.induct) (auto split: option.splits if_splits)

lemma remove_finds: "fst (removeElementFromArray es i) = findElement es i"
  by (induction es i rule: findElement.induct)
     (simp_all add: case_prod_beta split: option.splits)

lemma remove_None: "findElement es i = None \<Longrightarrow> snd (removeElementFromArray es i) = es"
  by (induction es i rule: findElement.induct)
     (auto simp add: case_prod_beta remove_finds split: option.splits if_splits)

lemma remove_mset:
  "findElement es i = Some e \<Longrightarrow>
     mset (rids es) = mset (rids (snd (removeElementFromArray es i))) + mset (rids [e])"
proof (induction es i rule: findElement.induct)
  case (1 elementId)
  then show ?case by simp
next
  case (2 eid ty did sh sv iu st ch rest elementId)
  show ?case
  proof (cases "eid = elementId")
    case True
    with "2.prems" show ?thesis by auto
  next
    case ne: False
    show ?thesis
    proof (cases "\<exists>cs. ch = Some cs \<and> ty = T_container \<and> findElement cs elementId \<noteq> None")
      case True
      then obtain cs where c: "ch = Some cs" "ty = T_container" "findElement cs elementId = Some e"
        using "2.prems" ne by (auto split: option.splits if_splits)
      have "mset (rids cs) = mset (rids (snd (removeElementFromArray cs elementId))) + mset (rids [e])"
        using "2.IH" ne c by blast
      with ne c show ?thesis
        by (simp add: case_prod_beta remove_finds)
    next
      case False
      then have r: "findElement rest elementId = Some e"
        using "2.prems" ne by (auto split: option.splits if_splits)
      have "mset (rids rest) = mset (rids (snd (removeElementFromArray rest elementId))) + mset (rids [e])"
        using "2.IH" ne False r by (auto split: option.splits if_splits)
      with ne False show ?thesis
        by (auto simp add: case_prod_beta remove_finds split: option.splits if_splits)
    qed
  qed
qed

lemma rids_single_head: "element_id e \<in> set (rids [e])"
  by (cases e) simp

lemma remove_distinct:
  assumes dist: "distinct (rids es)" and found: "findElement es i = Some e"
  shows "set (rids (snd (removeElementFromArray es i))) = set (rids es) - set (rids [e])"
    and "distinct (rids (snd (removeElementFromArray es i)))"
proof -
  let ?es' = "snd (removeElementFromArray es i)"
  have m: "mset (rids es) = mset (rids ?es' @ rids [e])"
    using remove_mset [OF found] by simp
  then have d: "distinct (rids ?es' @ rids [e])"
    using dist by (metis mset_eq_imp_distinct_iff)
  then show "distinct (rids ?es')" by simp
  have "set (rids es) = set (rids ?es') \<union> set (rids [e])"
    using m by (metis mset_eq_setD set_append)
  moreover have "set (rids ?es') \<inter> set (rids [e]) = {}"
    using d by simp
  ultimately show "set (rids ?es') = set (rids es) - set (rids [e])" by blast
qed

lemma add_cases:
  assumes found: "findElement (elements t) eid = Some e"
  shows "addElementToContainer t eid cid =
     (case findElement (elements (detached t eid)) cid of
        None \<Rightarrow> (Inl (ValidationError (''Container not found: '' @ cid)), detached t eid)
      | Some c \<Rightarrow>
          if element_type c \<noteq> T_container then
            (Inl (ValidationError (''Element '' @ cid @ '' is not a container'')), detached t eid)
          else (Inr (), (detached t eid)\<lparr>elements :=
                  updateElement (push_child e) (elements (detached t eid)) cid\<rparr>))"
proof -
  obtain r es' where re: "removeElementFromArray (elements t) eid = (r, es')"
    by (cases "removeElementFromArray (elements t) eid")
  with remove_finds [of "elements t" eid] found have "r = Some e" by simp
  with re show ?thesis
    by (simp add: addElementToContainer_def removeElementFromTemplate_def detached_def
        split: option.splits)
qed


text \<open>
  C10: for every template whose element ids are distinct (the data model's invariant) and
  every element \<open>e\<close> that \<open>eid\<close> resolves to: whenever \<open>addElementToContainer\<close> fails, the
  template it leaves is the one with \<open>e\<close> taken out, which differs from the one it was
  given; in it \<open>eid\<close> no longer resolves and exactly the ids of the subtree of \<open>e\<close> are
  missing. It fails so when the destination does not resolve in what is left, and when it
  resolves to an element that is not a container. In particular a destination inside the
  subtree of \<open>e\<close> (\<open>e\<close> itself or a descendant) always fails with "Container not found".
\<close>

theorem C10_failed_move_detaches:
  assumes dist: "distinct (rids (elements t))"
    and found: "findElement (elements t) eid = Some e"
  shows "(\<forall>err t'. addElementToContainer t eid cid = (Inl err, t') \<longrightarrow>
            t' = detached t eid \<and> t' \<noteq> t \<and>
            findElement (elements t') eid = None \<and>
            set (rids (elements t')) = set (rids (elements t)) - set (rids [e])) \<and>
         (findElement (elements (detached t eid)) cid = None \<longrightarrow>
            addElementToContainer t eid cid =
              (Inl (ValidationError (''Container not found: '' @ cid)), detached t eid)) \<and>
         (\<forall>c. findElement (elements (detached t eid)) cid = Some c \<and> element_type c \<noteq> T_container \<longrightarrow>
            addElementToContainer t eid cid =
              (Inl (ValidationError (''Element '' @ cid @ '' is not a container'')), detached t eid)) \<and>
         (cid \<in> set (rids [e]) \<longrightarrow>
            addElementToContainer t eid cid =
              (Inl (ValidationError (''Container not found: '' @ cid)), detached t eid))"
proof -
  let ?t' = "detached t eid"
  have s: "set (rids (elements ?t')) = set (rids (elements t)) - set (rids [e])"
    using remove_distinct(1) [OF dist found] by (simp add: detached_def)
  have eid: "eid \<in> set (rids [e])"
    using findElement_id [OF found] rids_single_head [of e] by simp
  have gone: "findElement (elements ?t') eid = None"
    using s eid by (simp add: findElement_None_iff)
  have inn: "eid \<in> set (rids (elements t))"
    using found findElement_None_iff [of "elements t" eid] by auto
  have out: "eid \<notin> set (rids (elements ?t'))"
    using s eid by simp
  have ne: "?t' \<noteq> t"
  proof
    assume "?t' = t"
    then have "set (rids (elements ?t')) = set (rids (elements t))" by simp
    with inn out show False by simp
  qed
  note ac = add_cases [OF found, of cid]
  have fail: "t' = ?t'" if "addElementToContainer t eid cid = (Inl err, t')" for err t'
  proof (cases "findElement (elements ?t') cid")
    case None
    with ac that show ?thesis by simp
  next
    case (Some c)
    with ac that show ?thesis by (cases "element_type c = T_container") simp_all
  qed
  have c1: "\<forall>err t'. addElementToContainer t eid cid = (Inl err, t') \<longrightarrow>
            t' = detached t eid \<and> t' \<noteq> t \<and>
            findElement (elements t') eid = None \<and>
            set (rids (elements t')) = set (rids (elements t)) - set (rids [e])"
  proof (intro allI impI)
    fix err t'
    assume "addElementToContainer t eid cid = (Inl err, t')"
    then have "t' = ?t'" by (rule fail)
    with ne gone s show "t' = detached t eid \<and> t' \<noteq> t \<and>
            findElement (elements t') eid = None \<and>
            set (rids (elements t')) = set (rids (elements t)) - set (rids [e])"
      by simp
  qed
  have c2: "findElement (elements ?t') cid = None \<longrightarrow>
            addElementToContainer t eid cid =
              (Inl (ValidationError (''Container not found: '' @ cid)), ?t')"
    using ac by simp
  have c3: "\<forall>c. findElement (elements ?t') cid = Some c \<and> element_type c \<noteq> T_container \<longrightarrow>
            addElementToContainer t eid cid =
              (Inl (ValidationError (''Element '' @ cid @ '' is not a container'')), ?t')"
    using ac by simp
  have "cid \<in> set (rids [e]) \<Longrightarrow> findElement (elements ?t') cid = None"
    using s by (simp add: findElement_None_iff)
  with c2 have c4: "cid \<in> set (rids [e]) \<longrightarrow>
            addElementToContainer t eid cid =
              (Inl (ValidationError (''Container not found: '' @ cid)), ?t')"
    by simp
  from c1 c2 c3 c4 show ?thesis by (intro conjI)
qed

theorem C10_failed_move_detaches_witness:
  "addElementToContainer tree0 ''outer'' ''inner'' =
     (Inl (ValidationError ''Container not found: inner''),
      tree0\<lparr>elements := [leaf ''bg'' T_shape, leaf ''b'' T_image]\<rparr>) \<and>
   addElementToContainer tree0 ''a'' ''b'' =
     (Inl (ValidationError ''Element b is not a container''),
      tree0\<lparr>elements := [leaf ''bg'' T_shape, box ''outer'' [box ''inner'' []], leaf ''b'' T_image]\<rparr>) \<and>
   findElement (elements (detached tree0 ''outer'')) ''outer'' = None"
proof -
  have "rids (elements tree0) = [''bg'', ''outer'', ''a'', ''inner'', ''b'']" by code_simp
  then have dist: "distinct (rids (elements tree0))" by simp
  have f1: "findElement (elements tree0) ''outer'' = Some (box ''outer'' [leaf ''a'' T_shape, box ''inner'' []])"
    by code_simp
  have f2: "findElement (elements tree0) ''a'' = Some (leaf ''a'' T_shape)"
    by code_simp
  have inside: "''inner'' \<in> set (rids [box ''outer'' [leaf ''a'' T_shape, box ''inner'' []]])"
    by code_simp
  have d1: "detached tree0 ''outer'' = tree0\<lparr>elements := [leaf ''bg'' T_shape, leaf ''b'' T_image]\<rparr>"
    by code_simp
  have d2: "detached tree0 ''a'' =
      tree0\<lparr>elements := [leaf ''bg'' T_shape, box ''outer'' [box ''inner'' []], leaf ''b'' T_image]\<rparr>"
    by code_simp
  have nc: "findElement (elements (detached tree0 ''a'')) ''b'' = Some (leaf ''b'' T_image) \<and>
            element_type (leaf ''b'' T_image) \<noteq> T_container"
    by code_simp
  have gone: "findElement (elements (detached tree0 ''outer'')) ''outer'' = None"
    unfolding d1 by code_simp
  have m1: "addElementToContainer tree0 ''outer'' ''inner'' =
     (Inl (ValidationError (''Container not found: '' @ ''inner'')), detached tree0 ''outer'')"
    by (rule C10_failed_move_detaches [OF dist f1, of "''inner''",
          THEN conjunct2, THEN conjunct2, THEN conjunct2, THEN mp, OF inside])
  have m2: "addElementToContainer tree0 ''a'' ''b'' =
     (Inl (ValidationError (''Element '' @ ''b'' @ '' is not a container'')), detached tree0 ''a'')"
    by (rule C10_failed_move_detaches [OF dist f2, of "''b''",
          THEN conjunct2, THEN conjunct2, THEN conjunct1, THEN spec, THEN mp, OF nc])
  show ?thesis
    unfolding m1 m2 d1 d2 by (simp add: leaf_def)
qed

section \<open>The final validation\<close>

lemma checkElements_find:
  "checkElement ids e =
     (case find (dangling ids) (all_elements [e]) of
        Some d \<Rightarrow> Inl (ValidationError (''Element references non-existent data item: '' @ the (data_item_id d)))
      | None \<Rightarrow> Inr ())"
  "checkElements ids es =
     (case find (dangling ids) (all_elements es) of
        Some d \<Rightarrow> Inl (ValidationError (''Element references non-existent data item: '' @ the (data_item_id d)))
      | None \<Rightarrow> Inr ())"
proof (induction ids e and ids es rule: checkElement_checkElements.induct)
  case (1 dataItemIds eid ty did sh sv iu st ch)
  then show ?case by (auto simp: dangling_def split: option.splits)
next
  case (2 dataItemIds)
  then show ?case by simp
next
  case (3 dataItemIds e es)
  obtain eid ty did sh sv iu st ch where e: "e = Element eid ty did sh sv iu st ch" by (cases e)
  have app: "all_elements (e # es) = all_elements [e] @ all_elements es"
    by (simp add: e)
  show ?case
  proof (cases "checkElement dataItemIds e")
    case (Inl a)
    with 3 show ?thesis unfolding app by (auto simp add: find_append2 split: option.splits)
  next
    case (Inr b)
    with 3 show ?thesis unfolding app by (auto simp add: find_append2 split: option.splits)
  qed
qed


lemma findIndex_none: "(\<And>x. x \<in> set xs \<Longrightarrow> \<not> P x) \<Longrightarrow> findIndex P xs = - 1"
  by (induction xs) simp_all

lemma failure_unattributed:
  "failure operations e =
     EXECUTION_FAILED 0 ''unknown''
       (if error_message e \<noteq> [] then error_message e else ''Unknown error occurred'')"
  by (simp add: failure_def error_step_def error_operation_def findIndex_none)

text \<open>
  C6, as stated, fails on the canvas: the check is for a width and a height that are
  truthy, not positive. A run whose only step creates a canvas of width -5 succeeds,
  passes the validation and is reported complete.
\<close>

theorem C6_negative_canvas_passes:
  "canvas_width (canvas (template (run_context (executeOperations env0 ext0 ''s'' ''S'' ops_neg world0)))) =
     JNum (- 5) \<and>
   \<not> (0 :: rat) < - 5 \<and>
   validateScene (run_context (executeOperations env0 ext0 ''s'' ''S'' ops_neg world0)) = Inr () \<and>
   (case last (sent (executeOperations env0 ext0 ''s'' ''S'' ops_neg world0)) of
      EXECUTION_COMPLETE i p fs pv \<Rightarrow> True
    | _ \<Rightarrow> False)"
  by code_simp

text \<open>
  C6, amended: the final validation fails if and only if the canvas width or height is
  falsy (missing, zero or empty), or the color palette has more than 16 entries, or the
  font palette more than 8, or some \<open>data_item\<close> element with a non-empty \<open>data_item_id\<close>,
  anywhere in the tree (children of any element, recursively), refers to an id that is
  not among the data items. When all steps have succeeded and the validation fails, the
  run ends with the failure message and sends no completion.
\<close>

theorem C6_validateScene:
  "((\<exists>err. validateScene ctx = Inl err) \<longleftrightarrow>
      (\<not> truthy (canvas_width (canvas (template ctx))) \<or>
       \<not> truthy (canvas_height (canvas (template ctx))) \<or>
       16 < length (color_palette (theme ctx)) \<or>
       8 < length (font_palette (theme ctx)) \<or>
       (\<exists>e \<in> set (all_elements (elements (template ctx))).
          dangling (map di_id (data_items (data ctx))) e))) \<and>
   (run_operations ev ext ops (start sid sname ops w) = (Inr (), r) \<and>
    validateScene (run_context r) = Inl err \<longrightarrow>
      executeOperations ev ext sid sname ops w =
        r\<lparr>sent := sent r @ [EXECUTION_FAILED 0 ''unknown''
           (if error_message err \<noteq> [] then error_message err else ''Unknown error occurred'')]\<rparr>)"
proof -
  have d: "(\<exists>e \<in> set es. dangling ids e) \<longleftrightarrow> find (dangling ids) es \<noteq> None" for ids es
    by (auto simp add: find_None_iff)
  have first: "(\<exists>err. validateScene ctx = Inl err) \<longleftrightarrow>
      (\<not> truthy (canvas_width (canvas (template ctx))) \<or>
       \<not> truthy (canvas_height (canvas (template ctx))) \<or>
       16 < length (color_palette (theme ctx)) \<or>
       8 < length (font_palette (theme ctx)) \<or>
       (\<exists>e \<in> set (all_elements (elements (template ctx))).
          dangling (map di_id (data_items (data ctx))) e))"
    unfolding d by (auto simp add: validateScene_def checkElements_find(2) split: option.splits)
  have second: "run_operations ev ext ops (start sid sname ops w) = (Inr (), r) \<and>
    validateScene (run_context r) = Inl err \<longrightarrow>
      executeOperations ev ext sid sname ops w =
        r\<lparr>sent := sent r @ [EXECUTION_FAILED 0 ''unknown''
           (if error_message err \<noteq> [] then error_message err else ''Unknown error occurred'')]\<rparr>"
    by (simp add: executeOperations_def start_def failure_unattributed)
  from first second show ?thesis by (rule conjI)
qed

theorem C6_validateScene_witness:
  "validateScene ctx_dangling =
     Inl (ValidationError ''Element references non-existent data item: data_9'') \<and>
   validateScene (initial_context ''s'' ''S'' []) = Inr () \<and>
   sent (executeOperations env0 ext_zero_canvas ''s'' ''S'' ops_zero world0) =
     [EXECUTION_PROGRESS 1 1 ''set_flex_layout'' ''Executing set_flex_layout...'',
      EXECUTION_FAILED 0 ''unknown'' ''Canvas not initialized'']"
proof -
  have e: "\<exists>e \<in> set (all_elements (elements (template ctx_dangling))).
             dangling (map di_id (data_items (data ctx_dangling))) e"
    by code_simp
  have "\<exists>err. validateScene ctx_dangling = Inl err"
    using C6_validateScene [of ctx_dangling env0 ext0 "[]" "''s''" "''S''" world0
        "start ''s'' ''S'' [] world0" "ValidationError []", THEN conjunct1] e
    by (simp only: simp_thms)
  moreover have "validateScene ctx_dangling =
      Inl (ValidationError ''Element references non-existent data item: data_9'') \<or>
      validateScene ctx_dangling = Inr ()"
    by code_simp
  ultimately have a: "validateScene ctx_dangling =
      Inl (ValidationError ''Element references non-existent data item: data_9'')"
    by auto
  have b: "validateScene (initial_context ''s'' ''S'' []) = Inr ()"
    by code_simp
  let ?run = "run_operations env0 ext_zero_canvas ops_zero (start ''s'' ''S'' ops_zero world0)"
  have "fst ?run = Inr ()" by code_simp
  then have ran: "?run = (Inr (), snd ?run)" by (simp add: prod_eq_iff)
  have bad: "validateScene (run_context (snd ?run)) = Inl (ValidationError ''Canvas not initialized'')"
    by code_simp
  have before: "sent (snd ?run) =
      [EXECUTION_PROGRESS 1 1 ''set_flex_layout'' ''Executing set_flex_layout...'']"
    by code_simp
  have "executeOperations env0 ext_zero_canvas ''s'' ''S'' ops_zero world0 =
      (snd ?run)\<lparr>sent := sent (snd ?run) @ [EXECUTION_FAILED 0 ''unknown''
         (if error_message (ValidationError ''Canvas not initialized'') \<noteq> []
          then error_message (ValidationError ''Canvas not initialized'')
          else ''Unknown error occurred'')]\<rparr>"
    by (rule C6_validateScene [THEN conjunct2, THEN mp, OF conjI, OF ran bad])
  then have c: "sent (executeOperations env0 ext_zero_canvas ''s'' ''S'' ops_zero world0) =
     [EXECUTION_PROGRESS 1 1 ''set_flex_layout'' ''Executing set_flex_layout...'',
      EXECUTION_FAILED 0 ''unknown'' ''Canvas not initialized'']"
    by (simp add: before)
  from a b c show ?thesis by (intro conjI)
qed

section \<open>Class names in the stylesheet and the markup\<close>















section \<open>The cap-height correction\<close>

subsection \<open>Rounding to a double\<close>

lemma bits_pos: "0 < n \<Longrightarrow> 2 ^ (bits n - 1) \<le> n \<and> n < 2 ^ bits n"
proof (induction n rule: bits.induct)
  case (1 n)
  show ?case
  proof (cases "n = 1")
    case True
    have "bits 1 = 1" by (simp add: bits.simps [of 1] bits.simps [of 0])
    with True show ?thesis by simp
  next
    case False
    with "1.prems" have h: "0 < n div 2" by simp
    from "1.prems" have n: "\<not> n \<le> 0" by simp
    from "1.IH" [OF n h] have a: "2 ^ (bits (n div 2) - 1) \<le> n div 2" and b: "n div 2 < 2 ^ bits (n div 2)"
      by simp_all
    have s: "bits n = Suc (bits (n div 2))" using n by (simp add: bits.simps [of n])
    from h have "bits (n div 2) \<noteq> 0" by (simp add: bits.simps [of "n div 2"])
    then obtain j where j: "bits (n div 2) = Suc j" by (cases "bits (n div 2)") auto
    have "2 * 2 ^ j \<le> 2 * (n div 2)" using a j by simp
    also have "\<dots> \<le> n" by simp
    finally have lo: "2 ^ (bits n - 1) \<le> n" by (simp add: s j)
    have "n < 2 * (n div 2) + 2" by simp
    also have "\<dots> \<le> 2 * 2 ^ bits (n div 2)" using b by simp
    finally have hi: "n < 2 ^ bits n" by (simp add: s)
    from lo hi show ?thesis ..
  qed
qed

lemma ilog2_bounds:
  assumes "0 < x"
  shows "2 powi (ilog2 x) \<le> x" and "x < 2 powi (ilog2 x + 1)"
proof -
  obtain p q where pq: "quotient_of x = (p, q)" by (cases "quotient_of x")
  then have q: "0 < q" and x: "x = of_int p / of_int q"
    by (simp_all add: quotient_of_denom_pos quotient_of_div)
  with assms have p: "0 < p" by (simp add: zero_less_divide_iff)
  define a b where "a = bits p" and "b = bits q"
  define d where "d = int a - int b"
  from bits_pos [OF p] have pa: "2 ^ (a - 1) \<le> p" "p < 2 ^ a" by (simp_all add: a_def)
  from bits_pos [OF q] have qb: "2 ^ (b - 1) \<le> q" "q < 2 ^ b" by (simp_all add: b_def)
  from p have a0: "a \<noteq> 0" by (simp add: a_def bits.simps [of p])
  from q have b0: "b \<noteq> 0" by (simp add: b_def bits.simps [of q])
  have il: "ilog2 x = (if 2 powi d \<le> x then d else d - 1)"
    by (simp add: ilog2_def pq a_def b_def d_def Let_def)
  have P: "(2::rat) ^ (a - 1) \<le> of_int p" "(of_int p :: rat) < 2 ^ a"
    using pa by (metis of_int_le_iff of_int_numeral of_int_power, metis of_int_less_iff of_int_numeral of_int_power)
  have Q: "(2::rat) ^ (b - 1) \<le> of_int q" "(of_int q :: rat) < 2 ^ b"
    using qb by (metis of_int_le_iff of_int_numeral of_int_power, metis of_int_less_iff of_int_numeral of_int_power)
  have qr: "(0::rat) < of_int q" using q by simp
  obtain a' where a': "a = Suc a'" using a0 by (cases a) auto
  obtain b' where b': "b = Suc b'" using b0 by (cases b) auto
  have d1: "d - 1 = int a' - int b" "d + 1 = int a - int b'"
    by (simp_all add: d_def a' b')
  have lo: "2 powi (d - 1) \<le> x"
  proof -
    have "(2::rat) powi (d - 1) = 2 ^ a' / 2 ^ b"
      unfolding d1 by (simp add: power_int_diff)
    also have "\<dots> \<le> of_int p / 2 ^ b" using P by (simp add: divide_right_mono a')
    also have "\<dots> \<le> of_int p / of_int q"
      using Q qr p by (intro divide_left_mono) (auto simp: less_imp_le)
    finally show ?thesis by (simp add: x)
  qed
  have hi: "x < 2 powi (d + 1)"
  proof -
    have "x < 2 ^ a / of_int q" using P qr by (simp add: x divide_strict_right_mono)
    also have "\<dots> \<le> 2 ^ a / 2 ^ b'"
      using Q qr by (intro divide_left_mono) (auto simp: b')
    also have "\<dots> = (2::rat) powi (d + 1)"
      unfolding d1 by (simp add: power_int_diff)
    finally show ?thesis .
  qed
  show "2 powi (ilog2 x) \<le> x" using lo by (simp add: il)
  show "x < 2 powi (ilog2 x + 1)" using hi by (auto simp: il not_le)
qed

lemma round_even_near: "\<bar>of_int (round_even y) - y\<bar> \<le> 1 / 2"
proof -
  have "of_int \<lfloor>y\<rfloor> \<le> y" "y < of_int \<lfloor>y\<rfloor> + 1" by linarith+
  then show ?thesis
    by (auto simp: round_even_def Let_def abs_le_iff split: if_splits)
qed

lemma pow2_le_exp: "(2::rat) powi e \<le> 2 powi k \<Longrightarrow> e \<le> k"
proof (rule ccontr)
  assume a: "(2::rat) powi e \<le> 2 powi k" and "\<not> e \<le> k"
  then have "k < e" by simp
  then have "(2::rat) powi k < 2 powi e" by (intro power_int_strict_increasing) simp_all
  with a show False by simp
qed

lemma pow2_half: "(2::rat) powi t / 2 = 2 powi (t - 1)"
  by (simp add: power_int_diff)

lemma nearest_err:
  assumes x: "\<bar>x\<bar> \<le> 2 powi k" and k: "- 1022 \<le> k"
  shows "\<bar>nearest x - x\<bar> \<le> 2 powi (k - 53)"
proof (cases "x = 0")
  case True
  then show ?thesis by (simp add: nearest_def)
next
  case False
  define e where "e = ilog2 \<bar>x\<bar>"
  define t where "t = max (e - 52) (- 1074)"
  define u where "u = (2::rat) powi t"
  from False have "0 < \<bar>x\<bar>" by simp
  then have "2 powi e \<le> \<bar>x\<bar>" unfolding e_def by (rule ilog2_bounds)
  with x have "(2::rat) powi e \<le> 2 powi k" by simp
  then have "e \<le> k" by (rule pow2_le_exp)
  with k have t: "t \<le> k - 52" by (simp add: t_def)
  have u: "0 < u" by (simp add: u_def)
  have n: "nearest x = of_int (round_even (x / u)) * u"
    using False by (simp add: nearest_def e_def t_def u_def Let_def)
  have "nearest x - x = (of_int (round_even (x / u)) - x / u) * u"
    using u by (simp add: n algebra_simps)
  then have "\<bar>nearest x - x\<bar> = \<bar>of_int (round_even (x / u)) - x / u\<bar> * u"
    using u by (simp add: abs_mult)
  also have "\<dots> \<le> 1 / 2 * u"
    using u round_even_near [of "x / u"] by (intro mult_right_mono) simp_all
  also have "\<dots> = 2 powi (t - 1)" by (simp add: u_def pow2_half [symmetric])
  also have "\<dots> \<le> 2 powi (k - 53)" using t by (intro power_int_increasing) simp_all
  finally show ?thesis .
qed

lemma ilog2_zero: "ilog2 0 = - 2"
  by code_simp

lemma rd_finite:
  assumes x: "\<bar>x\<bar> \<le> 2 powi k" and k: "- 1022 \<le> k" "k \<le> 1023"
  shows "rd x = Finite (nearest x)"
proof -
  define y where "y = nearest x"
  have "\<bar>y\<bar> \<le> \<bar>x\<bar> + \<bar>y - x\<bar>" by simp
  also have "\<dots> \<le> 2 powi k + 2 powi (k - 53)"
    using x nearest_err [OF x k(1)] by (simp add: y_def)
  also have "\<dots> < 2 powi k + 2 powi k"
    by (intro add_strict_left_mono power_int_strict_increasing) simp_all
  also have "\<dots> = 2 powi (k + 1)" by (simp add: power_int_add)
  also have "\<dots> \<le> 2 powi 1024" using k by (intro power_int_increasing) simp_all
  finally have b: "\<bar>y\<bar> < 2 powi 1024" .
  have "ilog2 \<bar>y\<bar> < 1024"
  proof (cases "y = 0")
    case True
    then show ?thesis by (simp add: ilog2_zero)
  next
    case False
    then have "2 powi (ilog2 \<bar>y\<bar>) \<le> \<bar>y\<bar>" by (intro ilog2_bounds) simp
    with b have "(2::rat) powi (ilog2 \<bar>y\<bar>) < 2 powi 1024" by simp
    then show ?thesis by (rule power_int_le_imp_less_exp [rotated]) simp_all
  qed
  then show ?thesis by (simp add: rd_def y_def Let_def)
qed

lemma rd_step:
  assumes "\<bar>x\<bar> \<le> 2 ^ j" and "j \<le> 1023"
  shows "rd x = Finite (nearest x) \<and> \<bar>nearest x - x\<bar> \<le> 2 ^ j / 2 ^ 53"
proof -
  have x: "\<bar>x\<bar> \<le> 2 powi (int j)" using assms(1) by simp
  have k: "- 1022 \<le> int j" "int j \<le> 1023" using assms(2) by simp_all
  have "(2::rat) powi (int j - 53) = 2 ^ j / 2 ^ 53"
    by (simp add: power_int_diff)
  with rd_finite [OF x k] nearest_err [OF x k(1)] show ?thesis by simp
qed

lemma scaled_err:
  fixes x :: rat
  assumes "\<bar>x - X\<bar> \<le> e" and "\<bar>f\<bar> \<le> F"
  shows "\<bar>x * f - X * f\<bar> \<le> e * F"
proof -
  have "\<bar>x * f - X * f\<bar> = \<bar>x - X\<bar> * \<bar>f\<bar>"
    by (simp add: abs_mult [symmetric] algebra_simps)
  also have "\<dots> \<le> e * F"
    using assms by (intro mult_mono) auto
  finally show ?thesis .
qed

lemma prod_bound:
  fixes x :: rat
  assumes "\<bar>x\<bar> \<le> A" and "\<bar>f\<bar> \<le> F"
  shows "\<bar>x * f\<bar> \<le> A * F"
  unfolding abs_mult using assms by (intro mult_mono) auto

lemma floor_half: "\<bar>of_int \<lfloor>q + 1 / 2\<rfloor> - q\<bar> \<le> (1 / 2 :: rat)"
  by linarith

subsection \<open>The error of the correction\<close>

lemma sub_Finite: "sub (Finite x) (Finite y) = rd (x - y)"
  by (simp add: sub_def)

lemma offset_err:
  fixes a d c a' d' c' lh fs :: rat
  assumes m: "getFontMetrics name =
                Some \<lparr>ascent = Finite a', descent = Finite d', capHeight = Finite c'\<rparr>"
    and a: "\<bar>a' - a\<bar> \<le> 1 / 2 ^ 52" "0 \<le> a" "a \<le> 3 / 2"
    and d: "\<bar>d' - d\<bar> \<le> 1 / 2 ^ 52" "0 \<le> d" "d \<le> 1 / 2"
    and c: "\<bar>c' - c\<bar> \<le> 1 / 2 ^ 52" "0 \<le> c" "c \<le> 1"
    and lh: "0 \<le> lh" "lh \<le> 100"
    and fs: "\<bar>fs\<bar> \<le> 4200"
  shows "\<exists>off. capHeightOffsetPx name (Finite fs) (Finite lh) = Finite off \<and>
           \<bar>off - ((lh - a - d) * fs / 2 + (a - c) * fs)\<bar> \<le> 1 / 10 ^ 9 \<and>
           \<bar>off\<bar> \<le> 230000"
proof -
  define s1 where "s1 = nearest (lh - a')"
  define s2 where "s2 = nearest (s1 - d')"
  define p1 where "p1 = nearest (s2 * fs)"
  define h where "h = nearest (p1 / 2)"
  define s3 where "s3 = nearest (a' - c')"
  define p2 where "p2 = nearest (s3 * fs)"
  define off where "off = nearest (h + p2)"
  have b1: "\<bar>lh - a'\<bar> \<le> 2 ^ 7" using a lh by (simp del: le_divide_eq_numeral1 divide_le_eq_numeral1; linarith)
  from rd_step [OF b1] have r1: "rd (lh - a') = Finite s1" and e1: "\<bar>s1 - (lh - a')\<bar> \<le> 2 ^ 7 / 2 ^ 53"
    by (simp_all add: s1_def)
  have b2: "\<bar>s1 - d'\<bar> \<le> 2 ^ 7" using a d lh e1 by (simp del: le_divide_eq_numeral1 divide_le_eq_numeral1; linarith)
  from rd_step [OF b2] have r2: "rd (s1 - d') = Finite s2" and e2: "\<bar>s2 - (s1 - d')\<bar> \<le> 2 ^ 7 / 2 ^ 53"
    by (simp_all add: s2_def)
  have t2: "\<bar>s2 - (lh - a - d)\<bar> \<le> 1 / 2 ^ 44" using e1 e2 a d by (simp del: le_divide_eq_numeral1 divide_le_eq_numeral1; linarith)
  have m2: "\<bar>s2\<bar> \<le> 102" using t2 a d lh by (simp del: le_divide_eq_numeral1 divide_le_eq_numeral1; linarith)
  have "\<bar>s2 * fs\<bar> \<le> 102 * 4200" using m2 fs by (rule prod_bound)
  then have b3: "\<bar>s2 * fs\<bar> \<le> 2 ^ 19" by simp
  from rd_step [OF b3] have r3: "rd (s2 * fs) = Finite p1" and e3: "\<bar>p1 - s2 * fs\<bar> \<le> 2 ^ 19 / 2 ^ 53"
    by (simp_all add: p1_def)
  have "\<bar>s2 * fs - (lh - a - d) * fs\<bar> \<le> 1 / 2 ^ 44 * 4200" using t2 fs by (rule scaled_err)
  with e3 have t3: "\<bar>p1 - (lh - a - d) * fs\<bar> \<le> 1 / 2 ^ 44 * 4200 + 2 ^ 19 / 2 ^ 53" by linarith
  have m3: "\<bar>p1\<bar> \<le> 428401" using e3 \<open>\<bar>s2 * fs\<bar> \<le> 102 * 4200\<close> by (simp del: le_divide_eq_numeral1 divide_le_eq_numeral1; linarith)
  have b4: "\<bar>p1 / 2\<bar> \<le> 2 ^ 18" using m3 by simp
  from rd_step [OF b4] have r4: "rd (p1 / 2) = Finite h" and e4: "\<bar>h - p1 / 2\<bar> \<le> 2 ^ 18 / 2 ^ 53"
    by (simp_all add: h_def)
  have t4: "\<bar>h - (lh - a - d) * fs / 2\<bar> \<le> 1 / 2 ^ 44 * 2100 + 2 ^ 19 / 2 ^ 53" using t3 e4 by (simp del: le_divide_eq_numeral1 divide_le_eq_numeral1; linarith)
  have m4: "\<bar>h\<bar> \<le> 214201" using e4 m3 by (simp del: le_divide_eq_numeral1 divide_le_eq_numeral1; linarith)
  have b5: "\<bar>a' - c'\<bar> \<le> 2 ^ 1" using a c by (simp del: le_divide_eq_numeral1 divide_le_eq_numeral1; linarith)
  from rd_step [OF b5] have r5: "rd (a' - c') = Finite s3" and e5: "\<bar>s3 - (a' - c')\<bar> \<le> 2 ^ 1 / 2 ^ 53"
    by (simp_all add: s3_def)
  have t5: "\<bar>s3 - (a - c)\<bar> \<le> 1 / 2 ^ 50" using e5 a c by (simp del: le_divide_eq_numeral1 divide_le_eq_numeral1; linarith)
  have m5: "\<bar>s3\<bar> \<le> 2" using t5 a c by (simp del: le_divide_eq_numeral1 divide_le_eq_numeral1; linarith)
  have "\<bar>s3 * fs\<bar> \<le> 2 * 4200" using m5 fs by (rule prod_bound)
  then have b6: "\<bar>s3 * fs\<bar> \<le> 2 ^ 14" by simp
  from rd_step [OF b6] have r6: "rd (s3 * fs) = Finite p2" and e6: "\<bar>p2 - s3 * fs\<bar> \<le> 2 ^ 14 / 2 ^ 53"
    by (simp_all add: p2_def)
  have "\<bar>s3 * fs - (a - c) * fs\<bar> \<le> 1 / 2 ^ 50 * 4200" using t5 fs by (rule scaled_err)
  with e6 have t6: "\<bar>p2 - (a - c) * fs\<bar> \<le> 1 / 2 ^ 50 * 4200 + 2 ^ 14 / 2 ^ 53" by linarith
  have m6: "\<bar>p2\<bar> \<le> 8401" using e6 \<open>\<bar>s3 * fs\<bar> \<le> 2 * 4200\<close> by (simp del: le_divide_eq_numeral1 divide_le_eq_numeral1; linarith)
  have b7: "\<bar>h + p2\<bar> \<le> 2 ^ 18" using m4 m6 by (simp del: le_divide_eq_numeral1 divide_le_eq_numeral1; linarith)
  from rd_step [OF b7] have r7: "rd (h + p2) = Finite off" and e7: "\<bar>off - (h + p2)\<bar> \<le> 2 ^ 18 / 2 ^ 53"
    by (simp_all add: off_def)
  have t7: "\<bar>off - ((lh - a - d) * fs / 2 + (a - c) * fs)\<bar> \<le> 1 / 10 ^ 9"
    using t4 t6 e7 by (simp del: le_divide_eq_numeral1 divide_le_eq_numeral1; linarith)
  have m7: "\<bar>off\<bar> \<le> 230000" using e7 m4 m6 by (simp del: le_divide_eq_numeral1 divide_le_eq_numeral1; linarith)
  have "capHeightOffsetPx name (Finite fs) (Finite lh) = Finite off"
    by (simp add: capHeightOffsetPx_def m sub_Finite r1 r2 r3 r4 r5 r6 r7 Let_def)
  with t7 m7 show ?thesis by blast
qed

lemma table_values:
  "FONT_METRICS ''arial'' =
     Some \<lparr>ascent = Finite (1854 / 2048), descent = Finite (434 / 2048), capHeight = Finite (1467 / 2048)\<rparr>"
  "FONT_METRICS ''montserrat'' =
     Some \<lparr>ascent = Finite (4530621225134719 / 4503599627370496),
           descent = Finite (3494793310839505 / 18014398509481984),
           capHeight = Finite (3152519739159347 / 4503599627370496)\<rparr>"
  "FONT_METRICS ''_default'' =
     Some \<lparr>ascent = Finite (8106479329266893 / 9007199254740992),
           descent = Finite (3602879701896397 / 18014398509481984),
           capHeight = Finite (799388933858263 / 1125899906842624)\<rparr>"
  by code_simp+

lemma table_keys:
  "key \<noteq> ''arial'' \<Longrightarrow> key \<noteq> ''montserrat'' \<Longrightarrow> key \<noteq> ''_default'' \<Longrightarrow> FONT_METRICS key = None"
  by (simp add: FONT_METRICS_def)

lemma metrics_none:
  "family_metrics (toLowerCase name) = None \<Longrightarrow> getFontMetrics name = None"
  by (auto simp: family_metrics_def getFontMetrics_def Let_def split: if_splits)

lemma metrics_near:
  assumes "family_metrics (toLowerCase name) = Some (a, d, c)"
  shows "\<exists>a' d' c'. getFontMetrics name =
             Some \<lparr>ascent = Finite a', descent = Finite d', capHeight = Finite c'\<rparr> \<and>
           \<bar>a' - a\<bar> \<le> 1 / 2 ^ 52 \<and> \<bar>d' - d\<bar> \<le> 1 / 2 ^ 52 \<and> \<bar>c' - c\<bar> \<le> 1 / 2 ^ 52 \<and>
           0 \<le> a \<and> a \<le> 3 / 2 \<and> 0 \<le> d \<and> d \<le> 1 / 2 \<and> 0 \<le> c \<and> c \<le> 1"
proof -
  define key where "key = toLowerCase name"
  from assms have k: "key \<noteq> ''constructor''" "key \<noteq> ''__proto__''"
    by (auto simp: family_metrics_def key_def split: if_splits)
  consider "key = ''arial''" | "key = ''montserrat''"
    | "key \<noteq> ''arial''" "key \<noteq> ''montserrat''"
    by blast
  then show ?thesis
  proof cases
    case 1
    with assms have v: "a = 1854 / 2048" "d = 434 / 2048" "c = 1467 / 2048"
      by (simp_all add: family_metrics_def key_def)
    have g: "getFontMetrics name = FONT_METRICS ''arial''"
      using 1 by (simp add: getFontMetrics_def key_def [symmetric] table_values Let_def)
    show ?thesis
      unfolding g table_values v
      by (rule exI [of _ "1854 / 2048"], rule exI [of _ "434 / 2048"],
          rule exI [of _ "1467 / 2048"]) simp
  next
    case 2
    with assms have v: "a = 1006 / 1000" "d = 194 / 1000" "c = 700 / 1000"
      by (simp_all add: family_metrics_def key_def)
    have g: "getFontMetrics name = FONT_METRICS ''montserrat''"
      using 2 by (simp add: getFontMetrics_def key_def [symmetric] table_values Let_def)
    show ?thesis
      unfolding g table_values v
      by (rule exI [of _ "4530621225134719 / 4503599627370496"],
          rule exI [of _ "3494793310839505 / 18014398509481984"],
          rule exI [of _ "3152519739159347 / 4503599627370496"]) simp
  next
    case 3
    with assms k have v: "a = 9 / 10" "d = 2 / 10" "c = 71 / 100"
      by (simp_all add: family_metrics_def key_def [symmetric])
    have g: "getFontMetrics name = FONT_METRICS ''_default''"
    proof (cases "key = ''_default''")
      case True
      then show ?thesis by (simp add: getFontMetrics_def key_def [symmetric] table_values Let_def)
    next
      case False
      with 3 have "FONT_METRICS key = None" by (simp add: table_keys)
      with k show ?thesis by (simp add: getFontMetrics_def key_def [symmetric] Let_def)
    qed
    show ?thesis
      unfolding g table_values v
      by (rule exI [of _ "8106479329266893 / 9007199254740992"],
          rule exI [of _ "3602879701896397 / 18014398509481984"],
          rule exI [of _ "799388933858263 / 1125899906842624"]) simp
  qed
qed

lemma constants:
  "PT_TO_PX = Finite (4691249611844267 / 1125899906842624)"
  "MM_TO_PX = Finite (831126899736189 / 70368744177664)"
  by code_simp+

lemma tenth_err:
  fixes v :: rat
  assumes v: "\<bar>v\<bar> \<le> 400000"
  shows "\<exists>k. div_by (Math_round (mul (Finite v) (Finite 10))) 10 = Finite (nearest (of_int k / 10)) \<and>
           \<bar>of_int k / 10 - v\<bar> \<le> 1 / 20 + 1 / 10 ^ 10 \<and>
           \<bar>nearest (of_int k / 10) - v\<bar> \<le> 1 / 20 + 2 / 10 ^ 10"
proof -
  define t where "t = nearest (v * 10)"
  define k where "k = \<lfloor>t + 1 / 2\<rfloor>"
  have b1: "\<bar>v * 10\<bar> \<le> 2 ^ 22" using v by (simp del: le_divide_eq_numeral1 divide_le_eq_numeral1; linarith)
  from rd_step [OF b1] have r1: "rd (v * 10) = Finite t" and e1: "\<bar>t - v * 10\<bar> \<le> 2 ^ 22 / 2 ^ 53"
    by (simp_all add: t_def)
  have e2: "\<bar>of_int k - t\<bar> \<le> 1 / 2" unfolding k_def by (rule floor_half)
  have e3: "\<bar>of_int k / 10 - v\<bar> \<le> 1 / 20 + 1 / 10 ^ 10"
    using e1 e2 by (simp del: le_divide_eq_numeral1 divide_le_eq_numeral1; linarith)
  have b2: "\<bar>of_int k / 10 :: rat\<bar> \<le> 2 ^ 19"
    using e3 v by (simp del: le_divide_eq_numeral1 divide_le_eq_numeral1; linarith)
  from rd_step [OF b2] have r2: "rd (of_int k / 10) = Finite (nearest (of_int k / 10))"
    and e4: "\<bar>nearest (of_int k / 10) - of_int k / 10\<bar> \<le> 2 ^ 19 / 2 ^ 53"
    by simp_all
  have e5: "\<bar>nearest (of_int k / 10) - v\<bar> \<le> 1 / 20 + 2 / 10 ^ 10"
    using e3 e4 by (simp del: le_divide_eq_numeral1 divide_le_eq_numeral1; linarith)
  have "div_by (Math_round (mul (Finite v) (Finite 10))) 10 = Finite (nearest (of_int k / 10))"
    by (simp add: r1 k_def [symmetric] r2)
  with e3 e5 show ?thesis by blast
qed

lemma ptToPx_err:
  fixes pt :: rat
  assumes pt: "0 \<le> pt" "pt \<le> 1000"
  shows "\<exists>k. ptToPx (Finite pt) = Finite (nearest (of_int k / 10)) \<and>
           \<bar>of_int k / 10 - pt * (300 / 72)\<bar> \<le> 1 / 20 + 1 / 10 ^ 9 \<and>
           \<bar>nearest (of_int k / 10) - pt * (300 / 72)\<bar> \<le> 1 / 20 + 1 / 10 ^ 9"
proof -
  define P :: rat where "P = 4691249611844267 / 1125899906842624"
  define v where "v = nearest (pt * P)"
  have b1: "\<bar>pt * P\<bar> \<le> 2 ^ 13"
    using pt unfolding P_def by (simp del: le_divide_eq_numeral1 divide_le_eq_numeral1; linarith)
  from rd_step [OF b1] have r1: "rd (pt * P) = Finite v" and e1: "\<bar>v - pt * P\<bar> \<le> 2 ^ 13 / 2 ^ 53"
    by (simp_all add: v_def)
  have e2: "\<bar>v - pt * (300 / 72)\<bar> \<le> 1 / 10 ^ 11"
    using e1 pt unfolding P_def by (simp del: le_divide_eq_numeral1 divide_le_eq_numeral1; linarith)
  have "\<bar>v\<bar> \<le> 400000"
    using e2 pt by (simp del: le_divide_eq_numeral1 divide_le_eq_numeral1; linarith)
  from tenth_err [OF this] obtain k where
    k: "div_by (Math_round (mul (Finite v) (Finite 10))) 10 = Finite (nearest (of_int k / 10))"
      "\<bar>of_int k / 10 - v\<bar> \<le> 1 / 20 + 1 / 10 ^ 10"
      "\<bar>nearest (of_int k / 10) - v\<bar> \<le> 1 / 20 + 2 / 10 ^ 10"
    by blast
  have "ptToPx (Finite pt) = Finite (nearest (of_int k / 10))"
    using k(1) by (simp add: ptToPx_def constants P_def [symmetric] r1)
  moreover have "\<bar>of_int k / 10 - pt * (300 / 72)\<bar> \<le> 1 / 20 + 1 / 10 ^ 9"
    using k(2) e2 by (simp del: le_divide_eq_numeral1 divide_le_eq_numeral1; linarith)
  moreover have "\<bar>nearest (of_int k / 10) - pt * (300 / 72)\<bar> \<le> 1 / 20 + 1 / 10 ^ 9"
    using k(3) e2 by (simp del: le_divide_eq_numeral1 divide_le_eq_numeral1; linarith)
  ultimately show ?thesis by blast
qed

lemma mmToPx_err:
  fixes y :: rat
  assumes y: "\<bar>y\<bar> \<le> 10000"
  shows "\<exists>px. mmToPx (Finite y) = Finite (of_int px) \<and>
           \<bar>of_int px - y * (300 / (254 / 10))\<bar> \<le> 1 / 2 + 1 / 10 ^ 9 \<and>
           \<bar>of_int px :: rat\<bar> \<le> 118112"
proof -
  define M :: rat where "M = 831126899736189 / 70368744177664"
  define q where "q = nearest (y * M)"
  define px where "px = \<lfloor>q + 1 / 2\<rfloor>"
  have b1: "\<bar>y * M\<bar> \<le> 2 ^ 17"
    using y unfolding M_def by (simp del: le_divide_eq_numeral1 divide_le_eq_numeral1; linarith)
  from rd_step [OF b1] have r1: "rd (y * M) = Finite q" and e1: "\<bar>q - y * M\<bar> \<le> 2 ^ 17 / 2 ^ 53"
    by (simp_all add: q_def)
  have e2: "\<bar>q - y * (300 / (254 / 10))\<bar> \<le> 1 / 10 ^ 10"
    using e1 y unfolding M_def by (simp del: le_divide_eq_numeral1 divide_le_eq_numeral1; linarith)
  have e3: "\<bar>of_int px - q\<bar> \<le> 1 / 2" unfolding px_def by (rule floor_half)
  have "mmToPx (Finite y) = Finite (of_int px)"
    by (simp add: mmToPx_def constants M_def [symmetric] r1 px_def)
  moreover have "\<bar>of_int px - y * (300 / (254 / 10))\<bar> \<le> 1 / 2 + 1 / 10 ^ 9"
    using e2 e3 by (simp del: le_divide_eq_numeral1 divide_le_eq_numeral1; linarith)
  moreover have "\<bar>of_int px :: rat\<bar> \<le> 118112"
    using e2 e3 y by (simp del: le_divide_eq_numeral1 divide_le_eq_numeral1; linarith)
  ultimately show ?thesis by blast
qed

lemma add_NaN: "add a NotANumber = NotANumber"
  by (cases a) simp_all

lemma yPx_NaN:
  "getFontMetrics (fontName entry) = None \<Longrightarrow> entry_yPx entry = NotANumber"
  by (simp add: entry_yPx_def capHeightOffsetPx_def sub_def add_NaN Let_def)

subsection \<open>Values\<close>

text \<open>
  Ties go to the even significand in the arithmetic and upwards in \<open>Math.round\<close>; two
  entries whose position is decided by the rounding of the doubles.
\<close>

lemma rounding_examples:
  "rd (1 / 10) = Finite (3602879701896397 / 36028797018963968)"
  "nearest (2 ^ 53 + 1) = 2 ^ 53"
  "nearest (2 ^ 53 + 3) = 2 ^ 53 + 4"
  "nearest (- (2 ^ 53) - 1) = - (2 ^ 53)"
  "Math_round (Finite (5 / 2)) = Finite 3"
  "Math_round (Finite (- 5 / 2)) = Finite (- 2)"
  "Math_round (Finite (7 / 5)) = Finite 1"
  by code_simp+

lemma tie_examples:
  "entry_yPx (entry2\<lparr>fontSize := rd (108 / 10), lineSpacing := rd (15 / 10)\<rparr>) = rd (1004 / 10)"
  "entry_yPx (entry2\<lparr>fontName := ''Montserrat'', fontSize := Finite 30, lineSpacing := rd (16 / 10)\<rparr>) =
     rd (547 / 10)"
  by code_simp+

subsection \<open>The top position\<close>

text \<open>
  C8, as stated, fails on the last clause: the top position is not the difference itself
  but the difference rounded to one decimal place, and the conversion of \<open>yMm\<close> is rounded
  to a whole pixel first. For 12pt Arial at y = 10 mm with line height 1.4 the offset is
  16915/1024 px and the conversion gives 118 px; the position written is 101.5 px, which is
  neither 118 - 16915/1024 (the code's own subtraction gives 103917/1024) nor
  10 * 300/25.4 - 16915/1024.
\<close>

theorem C8_top_is_rounded:
  "entry_yPx entry1 = Finite (203 / 2) \<and>
   mmToPx (yMm entry1) = Finite 118 \<and>
   capHeightOffsetPx (fontName entry1) (ptToPx (fontSize entry1)) (lineSpacing entry1) =
     Finite (16915 / 1024) \<and>
   sub (Finite 118) (Finite (16915 / 1024)) = Finite (103917 / 1024) \<and>
   (103917 / 1024 :: rat) \<noteq> 203 / 2 \<and>
   10 * (300 / (254 / 10)) - 16915 / 1024 \<noteq> (203 / 2 :: rat)"
  by code_simp

text \<open>
  C8, amended. A text entry whose family is \<open>constructor\<close> or \<open>__proto__\<close> (in any case of
  letters) gets no position: the result is NaN. For every other entry, with a font size up
  to 1000 pt, a line height up to 100 and a position within 10 m, the numbers are finite
  and, with \<open>m\<close> the metrics of the family (those of the table for Arial and Montserrat,
  the fallback 0.9, 0.2, 0.71 for every other family):
  the font size in pixels \<open>fs\<close> is within 0.05 px of \<open>pt * 300 / 72\<close>;
  \<open>mmToPx(yMm)\<close> is a whole number \<open>px\<close> within half a pixel of \<open>yMm * 300 / 25.4\<close>;
  the correction \<open>off\<close> is \<open>halfLeading + (ascent - capHeight) * fs\<close> with
  \<open>halfLeading = (lineHeight - ascent - descent) * fs / 2\<close>;
  and the top position is \<open>px - off\<close> rounded to one decimal place: the double nearest to
  a whole number of tenths, within 0.05 px of \<open>px - off\<close>. Each of these holds up to the
  rounding of the double arithmetic, which stays below \<open>10^-9\<close> px (twice that for the last
  bound against the exact formula).
\<close>

theorem C8_corrected_top:
  "case family_metrics (toLowerCase (fontName entry)) of
     None \<Rightarrow> entry_yPx entry = NotANumber
   | Some m \<Rightarrow>
       in_range entry pt lh y \<longrightarrow>
       (\<exists>fs px off top.
          ptToPx (fontSize entry) = Finite fs \<and>
          \<bar>fs - pt * (300 / 72)\<bar> \<le> 1 / 20 + 1 / 10 ^ 9 \<and>
          mmToPx (yMm entry) = Finite (of_int px) \<and>
          \<bar>of_int px - y * (300 / (254 / 10))\<bar> \<le> 1 / 2 + 1 / 10 ^ 9 \<and>
          capHeightOffsetPx (fontName entry) (Finite fs) (lineSpacing entry) = Finite off \<and>
          \<bar>off - offset_formula m fs lh\<bar> \<le> 1 / 10 ^ 9 \<and>
          entry_yPx entry = Finite top \<and>
          \<bar>top - (of_int px - off)\<bar> \<le> 1 / 20 + 1 / 10 ^ 9 \<and>
          \<bar>top - (of_int px - offset_formula m fs lh)\<bar> \<le> 1 / 20 + 2 / 10 ^ 9 \<and>
          (\<exists>k. top = nearest (of_int k / 10)))"
proof (cases "family_metrics (toLowerCase (fontName entry))")
  case None
  then have "getFontMetrics (fontName entry) = None" by (rule metrics_none)
  then have "entry_yPx entry = NotANumber" by (rule yPx_NaN)
  with None show ?thesis by simp
next
  case (Some m)
  obtain a d c where m: "m = (a, d, c)" by (cases m)
  have "\<exists>fs px off top.
          ptToPx (fontSize entry) = Finite fs \<and>
          \<bar>fs - pt * (300 / 72)\<bar> \<le> 1 / 20 + 1 / 10 ^ 9 \<and>
          mmToPx (yMm entry) = Finite (of_int px) \<and>
          \<bar>of_int px - y * (300 / (254 / 10))\<bar> \<le> 1 / 2 + 1 / 10 ^ 9 \<and>
          capHeightOffsetPx (fontName entry) (Finite fs) (lineSpacing entry) = Finite off \<and>
          \<bar>off - offset_formula m fs lh\<bar> \<le> 1 / 10 ^ 9 \<and>
          entry_yPx entry = Finite top \<and>
          \<bar>top - (of_int px - off)\<bar> \<le> 1 / 20 + 1 / 10 ^ 9 \<and>
          \<bar>top - (of_int px - offset_formula m fs lh)\<bar> \<le> 1 / 20 + 2 / 10 ^ 9 \<and>
          (\<exists>k. top = nearest (of_int k / 10))"
    if r: "in_range entry pt lh y"
  proof -
    from r have e: "fontSize entry = Finite pt" "lineSpacing entry = Finite lh" "yMm entry = Finite y"
      and pt: "0 \<le> pt" "pt \<le> 1000" and lh: "0 \<le> lh" "lh \<le> 100" and y: "\<bar>y\<bar> \<le> 10000"
      by (simp_all add: in_range_def)
    from ptToPx_err [OF pt] obtain j where
      j: "ptToPx (Finite pt) = Finite (nearest (of_int j / 10))"
        "\<bar>nearest (of_int j / 10) - pt * (300 / 72)\<bar> \<le> 1 / 20 + 1 / 10 ^ 9"
      by blast
    define fs where "fs = nearest (of_int j / 10)"
    have fs: "\<bar>fs\<bar> \<le> 4200"
      using j(2) pt unfolding fs_def
      by (simp del: le_divide_eq_numeral1 divide_le_eq_numeral1; linarith)
    from mmToPx_err [OF y] obtain px where
      px: "mmToPx (Finite y) = Finite (of_int px)"
        "\<bar>of_int px - y * (300 / (254 / 10))\<bar> \<le> 1 / 2 + 1 / 10 ^ 9"
        "\<bar>of_int px :: rat\<bar> \<le> 118112"
      by blast
    from metrics_near [OF Some [unfolded m]] obtain a' d' c' where
      g: "getFontMetrics (fontName entry) =
            Some \<lparr>ascent = Finite a', descent = Finite d', capHeight = Finite c'\<rparr>"
      and n: "\<bar>a' - a\<bar> \<le> 1 / 2 ^ 52" "0 \<le> a" "a \<le> 3 / 2"
        "\<bar>d' - d\<bar> \<le> 1 / 2 ^ 52" "0 \<le> d" "d \<le> 1 / 2"
        "\<bar>c' - c\<bar> \<le> 1 / 2 ^ 52" "0 \<le> c" "c \<le> 1"
      by blast
    from offset_err [OF g n lh fs] obtain off where
      off: "capHeightOffsetPx (fontName entry) (Finite fs) (Finite lh) = Finite off"
        "\<bar>off - ((lh - a - d) * fs / 2 + (a - c) * fs)\<bar> \<le> 1 / 10 ^ 9"
        "\<bar>off\<bar> \<le> 230000"
      by blast
    define v where "v = nearest (of_int px - off)"
    have b: "\<bar>of_int px - off\<bar> \<le> 2 ^ 19"
      using px(3) off(3) by (simp del: le_divide_eq_numeral1 divide_le_eq_numeral1; linarith)
    from rd_step [OF b] have rv: "rd (of_int px - off) = Finite v"
      and ev: "\<bar>v - (of_int px - off)\<bar> \<le> 2 ^ 19 / 2 ^ 53"
      by (simp_all add: v_def)
    have "\<bar>v\<bar> \<le> 400000"
      using ev px(3) off(3) by (simp del: le_divide_eq_numeral1 divide_le_eq_numeral1; linarith)
    from tenth_err [OF this] obtain k where
      k: "div_by (Math_round (mul (Finite v) (Finite 10))) 10 = Finite (nearest (of_int k / 10))"
        "\<bar>nearest (of_int k / 10) - v\<bar> \<le> 1 / 20 + 2 / 10 ^ 10"
      by blast
    define top where "top = nearest (of_int k / 10)"
    have t: "entry_yPx entry = Finite top"
      using k(1) by (simp add: entry_yPx_def e j(1) fs_def [symmetric] px(1) off(1) sub_Finite rv
          top_def Let_def)
    have te: "\<bar>top - (of_int px - off)\<bar> \<le> 1 / 20 + 1 / 10 ^ 9"
      using k(2) ev unfolding top_def
      by (simp del: le_divide_eq_numeral1 divide_le_eq_numeral1; linarith)
    have oe: "\<bar>off - offset_formula m fs lh\<bar> \<le> 1 / 10 ^ 9"
      using off(2) by (simp add: offset_formula_def halfLeading_def m)
    have tf: "\<bar>top - (of_int px - offset_formula m fs lh)\<bar> \<le> 1 / 20 + 2 / 10 ^ 9"
      using te oe by (simp del: le_divide_eq_numeral1 divide_le_eq_numeral1; linarith)
    have "ptToPx (fontSize entry) = Finite fs" by (simp add: e j(1) fs_def)
    moreover have "\<bar>fs - pt * (300 / 72)\<bar> \<le> 1 / 20 + 1 / 10 ^ 9" using j(2) by (simp only: fs_def)
    moreover have "mmToPx (yMm entry) = Finite (of_int px)" by (simp add: e px(1))
    moreover have "capHeightOffsetPx (fontName entry) (Finite fs) (lineSpacing entry) = Finite off"
      by (simp add: e off(1))
    moreover have "\<exists>k. top = nearest (of_int k / 10)" unfolding top_def by blast
    ultimately show ?thesis using px(2) oe t te tf by blast
  qed
  with Some show ?thesis by simp
qed

theorem C8_corrected_top_witness:
  "entry_yPx entry2 = Finite (3521955646092083 / 35184372088832) \<and>
   \<bar>3521955646092083 / 35184372088832 - (118 - 1256082083571303 / 70368744177664)\<bar>
     \<le> (1 / 20 + 1 / 10 ^ 9 :: rat) \<and>
   \<bar>1256082083571303 / 70368744177664 - offset_formula (9 / 10, 2 / 10, 71 / 100) (255 / 2) 1\<bar>
     \<le> (1 / 10 ^ 9 :: rat) \<and>
   entry_yPx entry3 = NotANumber"
proof -
  define pt :: rat where "pt = 4306567143673037 / 140737488355328"
  have f: "family_metrics (toLowerCase (fontName entry2)) = Some (9 / 10, 2 / 10, 71 / 100)"
    by code_simp
  have s: "fontSize entry2 = Finite pt" unfolding pt_def by code_simp
  have r: "in_range entry2 pt 1 10"
    by (simp add: in_range_def s) (simp add: entry2_def pt_def)
  have v: "ptToPx (fontSize entry2) = Finite (255 / 2)"
    "mmToPx (yMm entry2) = Finite (of_int 118)"
    "capHeightOffsetPx (fontName entry2) (Finite (255 / 2)) (lineSpacing entry2) =
       Finite (1256082083571303 / 70368744177664)"
    "entry_yPx entry2 = Finite (3521955646092083 / 35184372088832)"
    by code_simp+
  from C8_corrected_top [of entry2 pt 1 10] f r obtain fs px off top where
    t: "ptToPx (fontSize entry2) = Finite fs"
      "mmToPx (yMm entry2) = Finite (of_int px)"
      "capHeightOffsetPx (fontName entry2) (Finite fs) (lineSpacing entry2) = Finite off"
      "\<bar>off - offset_formula (9 / 10, 2 / 10, 71 / 100) fs 1\<bar> \<le> 1 / 10 ^ 9"
      "entry_yPx entry2 = Finite top"
      "\<bar>top - (of_int px - off)\<bar> \<le> 1 / 20 + 1 / 10 ^ 9"
    by auto
  from t(1) v(1) have fs: "fs = 255 / 2" by simp
  from t(2) v(2) have px: "(of_int px :: rat) = 118" by simp
  from t(3) v(3) have off: "off = 1256082083571303 / 70368744177664" by (simp add: fs)
  from t(5) v(4) have top: "top = 3521955646092083 / 35184372088832" by simp
  have n: "family_metrics (toLowerCase (fontName entry3)) = None" by code_simp
  have "entry_yPx entry3 = NotANumber"
    using C8_corrected_top [of entry3 0 0 0] by (simp add: n)
  with v(4) t(4) t(6) show ?thesis
    unfolding fs px off top by (intro conjI)
qed

section \<open>Running operations\<close>

lemma yellow: "hexToRGBA ''#FFFF00'' = Inr \<lparr>rgba_r = Num 255, rgba_g = Num 255, rgba_b = Num 0, rgba_a = Num 1\<rparr>"
  by code_simp
lemma black: "hexToRGBA ''#000000'' = Inr \<lparr>rgba_r = Num 0, rgba_g = Num 0, rgba_b = Num 0, rgba_a = Num 1\<rparr>"
  by code_simp
lemma strs: "num_str 1 = ''1''" "num_str 2 = ''2''" "num_str 16 = ''16''" "num_str 0 = ''0''"
  "toLowerCase ''Arial'' = ''arial''"
  by code_simp+

lemma canvas_step:
  "handleCreateCanvas ev (initial_context sid sname ops\<lparr>currentStep := 1\<rparr>)
     (JObj [(''width'', JNum 1240), (''height'', JNum 1748), (''background_color'', JStr ''#FFFF00'')]) w =
   (Inr (ok (JObj [(''width'', JNum 1240), (''height'', JNum 1748)])),
    (initial_context sid sname ops)
      \<lparr>currentStep := 1,
       template := (template (initial_context sid sname ops))
         \<lparr>canvas := \<lparr>canvas_width = JNum 1240, canvas_height = JNum 1748\<rparr>,
          elements := [Element (generateId ev ''elem'' (Suc (next_id w))) T_shape None (Some ''rectangle'')
             None None
             (Some [(''width'', JStr ''100%''), (''height'', JStr ''100%''),
                    (''background_color'', JStr (generateId ev ''color'' (next_id w)))]) None]\<rparr>,
       theme := (theme (initial_context sid sname ops))
         \<lparr>color_palette := [\<lparr>c_id = generateId ev ''color'' (next_id w), c_name = ''color_1'',
             c_r = Num 255, c_g = Num 255, c_b = Num 0, c_a = Num 1\<rparr>]\<rparr>\<rparr>,
    w\<lparr>next_id := Suc (Suc (next_id w))\<rparr>)"
  by (simp add: handleCreateCanvas_def get_prop_def Let_def ensureColor_any_def ensureColorInTheme_def
      yellow same_rgba_def initial_context_def push_element_def strs)

lemma font_step:
  assumes "font_palette th = []"
  shows "ensureFontInTheme ev th ''Arial'' w =
     (Inr (generateId ev ''font'' (next_id w)),
      th\<lparr>font_palette := [\<lparr>font_id = generateId ev ''font'' (next_id w), font_name = ''Arial'',
                             font_url = fst (getFontUrl ev ''Arial'' (w\<lparr>next_id := Suc (next_id w)\<rparr>))\<rparr>]\<rparr>,
      snd (getFontUrl ev ''Arial'' (w\<lparr>next_id := Suc (next_id w)\<rparr>)))"
  using assms by (simp add: ensureFontInTheme_def Let_def case_prod_beta)

lemma getFontUrl_next_id: "next_id (snd (getFontUrl ev n w)) = next_id w"
  by (simp add: getFontUrl_def isGoogleFont_def Let_def case_prod_beta split: option.splits)

lemma text_step:
  assumes fp: "font_palette (theme c) = []"
    and cp: "color_palette (theme c) = [yellow_entry y]"
  shows "handleAddTextLayer ev c
     (JObj [(''layer_name'', JStr ''title''), (''text'', JStr ''Hello''), (''anchor'', JStr ''center'')]) w =
   (let k = next_id w;
        fontId = generateId ev ''font'' k;
        colorId = generateId ev ''color'' (Suc k);
        dataItemId = generateId ev ''data'' (Suc (Suc k));
        elementId = generateId ev ''elem'' (Suc (Suc (Suc k)));
        w1 = snd (getFontUrl ev ''Arial'' (w\<lparr>next_id := Suc k\<rparr>));
        th = (theme c)
          \<lparr>font_palette := [\<lparr>font_id = fontId, font_name = ''Arial'',
                               font_url = fst (getFontUrl ev ''Arial'' (w\<lparr>next_id := Suc k\<rparr>))\<rparr>],
           color_palette := [yellow_entry y,
              \<lparr>c_id = colorId, c_name = ''color_2'', c_r = Num 0, c_g = Num 0, c_b = Num 0, c_a = Num 1\<rparr>]\<rparr>;
        element = Element elementId T_data_item (Some dataItemId) None None None
          (Some [(''position'', JStr ''absolute''), (''left'', JStr ''50%''), (''top'', JStr ''50%''),
                 (''font'', JStr fontId), (''font_size'', JStr ''16px''), (''color'', JStr colorId),
                 (''text_align'', JStr ''left''),
                 (''transform'', JStr ''translate(calc(-50% + 0px), calc(-50% + 0px))'')]) None
    in (Inr (ok (JObj [(''elementId'', JStr elementId), (''dataItemId'', JStr dataItemId)])),
        c\<lparr>theme := th,
          data := (data c)\<lparr>data_items := data_items (data c) @
             [\<lparr>di_id = dataItemId, di_type = D_text, display_name = JStr ''title'',
               content = Some (JStr ''Hello''), di_image_url = None\<rparr>]\<rparr>,
          template := (template c)\<lparr>elements := elements (template c) @ [element]\<rparr>,
          layerMap := (layerMap c)(JStr ''title'' \<mapsto> elementId)\<rparr>,
        w1\<lparr>next_id := Suc (Suc (Suc (Suc k)))\<rparr>))"
  using fp cp
  by (simp add: handleAddTextLayer_def get_prop_def Let_def dflt_def jor_def
      ensureFont_any_def font_step getFontUrl_next_id
      ensureColor_any_def ensureColorInTheme_def black same_rgba_def yellow_entry_def
      text_position_def push_element_def strs)

lemma reg:
  "OPERATION_HANDLERS ext ''create_canvas'' = Some handleCreateCanvas"
  "OPERATION_HANDLERS ext ''add_text_layer'' = Some handleAddTextLayer"
  by (simp_all add: OPERATION_HANDLERS_def)

lemma res:
  "resolveParameters outs (JObj [(''width'', JNum 1240), (''height'', JNum 1748),
       (''background_color'', JStr ''#FFFF00'')]) =
     Inr (JObj [(''width'', JNum 1240), (''height'', JNum 1748), (''background_color'', JStr ''#FFFF00'')])"
  "resolveParameters outs (JObj [(''layer_name'', JStr ''title''), (''text'', JStr ''Hello''),
       (''anchor'', JStr ''center'')]) =
     Inr (JObj [(''layer_name'', JStr ''title''), (''text'', JStr ''Hello''), (''anchor'', JStr ''center'')])"
  by (simp_all add: match_placeholder_def)


lemma run_step_ok:
  assumes "OPERATION_HANDLERS ext (operation opn) = Some h"
    and "resolveParameters (operationOutputs (run_context r)) (parameters opn) = Inr p"
    and "h ev ((run_context r)\<lparr>currentStep := step opn\<rparr>) p (run_world r) = (Inr result, c2, w2)"
    and "success result"
  shows "run_operations ev ext (opn # rest) r =
     run_operations ev ext rest
       (r\<lparr>run_context :=
            (if op_output result \<noteq> JUndefined
             then c2\<lparr>operationOutputs := (operationOutputs c2)(step opn \<mapsto> op_output result)\<rparr>
             else c2),
          run_world := w2,
          sent := sent r @ [EXECUTION_PROGRESS (step opn) (totalSteps (run_context r)) (operation opn)
                              (''Executing '' @ operation opn @ ''...'')],
          invoked := invoked r @ [opn]\<rparr>)"
  using assms by (cases r) (simp add: Let_def)

lemma run_step_fail:
  assumes "OPERATION_HANDLERS ext (operation opn) = Some h"
    and "resolveParameters (operationOutputs (run_context r)) (parameters opn) = Inr p"
    and "h ev ((run_context r)\<lparr>currentStep := step opn\<rparr>) p (run_world r) = (Inl e, c2, w2)"
  shows "run_operations ev ext (opn # rest) r =
     (Inl e,
      r\<lparr>run_context := c2, run_world := w2,
        sent := sent r @ [EXECUTION_PROGRESS (step opn) (totalSteps (run_context r)) (operation opn)
                            (''Executing '' @ operation opn @ ''...'')],
        invoked := invoked r @ [opn]\<rparr>)"
  using assms by (cases r) (simp add: Let_def)


lemma scenario_run:
  "fst (run_operations ev ext ops_c7 (start sid sname ops_c7 w)) = Inr () \<and>
   canvas (template (run_context (snd (run_operations ev ext ops_c7 (start sid sname ops_c7 w))))) =
     \<lparr>canvas_width = JNum 1240, canvas_height = JNum 1748\<rparr> \<and>
   elements (template (run_context (snd (run_operations ev ext ops_c7 (start sid sname ops_c7 w))))) =
     [Element (generateId ev ''elem'' (next_id w + 1)) T_shape None (Some ''rectangle'') None None
        (Some [(''width'', JStr ''100%''), (''height'', JStr ''100%''),
               (''background_color'', JStr (generateId ev ''color'' (next_id w)))]) None,
      Element (generateId ev ''elem'' (next_id w + 5)) T_data_item
        (Some (generateId ev ''data'' (next_id w + 4))) None None None
        (Some [(''position'', JStr ''absolute''), (''left'', JStr ''50%''), (''top'', JStr ''50%''),
               (''font'', JStr (generateId ev ''font'' (next_id w + 2))), (''font_size'', JStr ''16px''),
               (''color'', JStr (generateId ev ''color'' (next_id w + 3))),
               (''text_align'', JStr ''left''),
               (''transform'', JStr ''translate(calc(-50% + 0px), calc(-50% + 0px))'')]) None] \<and>
   color_palette (theme (run_context (snd (run_operations ev ext ops_c7 (start sid sname ops_c7 w))))) =
     [\<lparr>c_id = generateId ev ''color'' (next_id w), c_name = ''color_1'',
       c_r = Num 255, c_g = Num 255, c_b = Num 0, c_a = Num 1\<rparr>,
      \<lparr>c_id = generateId ev ''color'' (next_id w + 3), c_name = ''color_2'',
       c_r = Num 0, c_g = Num 0, c_b = Num 0, c_a = Num 1\<rparr>] \<and>
   map font_name (font_palette (theme (run_context
       (snd (run_operations ev ext ops_c7 (start sid sname ops_c7 w)))))) = [''Arial''] \<and>
   data_items (data (run_context (snd (run_operations ev ext ops_c7 (start sid sname ops_c7 w))))) =
     [\<lparr>di_id = generateId ev ''data'' (next_id w + 4), di_type = D_text, display_name = JStr ''title'',
       content = Some (JStr ''Hello''), di_image_url = None\<rparr>]"
proof -
  let ?op1 = "\<lparr>step = 1, operation = ''create_canvas'',
       parameters = JObj [(''width'', JNum 1240), (''height'', JNum 1748),
                          (''background_color'', JStr ''#FFFF00'')]\<rparr>"
  let ?op2 = "\<lparr>step = 2, operation = ''add_text_layer'',
       parameters = JObj [(''layer_name'', JStr ''title''), (''text'', JStr ''Hello''),
                          (''anchor'', JStr ''center'')]\<rparr>"
  let ?r0 = "start sid sname ops_c7 w"
  let ?k = "next_id w"
  let ?c1 = "(initial_context sid sname ops_c7)
      \<lparr>currentStep := 1,
       template := (template (initial_context sid sname ops_c7))
         \<lparr>canvas := \<lparr>canvas_width = JNum 1240, canvas_height = JNum 1748\<rparr>,
          elements := [Element (generateId ev ''elem'' (Suc ?k)) T_shape None (Some ''rectangle'')
             None None
             (Some [(''width'', JStr ''100%''), (''height'', JStr ''100%''),
                    (''background_color'', JStr (generateId ev ''color'' ?k))]) None]\<rparr>,
       theme := (theme (initial_context sid sname ops_c7))
         \<lparr>color_palette := [\<lparr>c_id = generateId ev ''color'' ?k, c_name = ''color_1'',
             c_r = Num 255, c_g = Num 255, c_b = Num 0, c_a = Num 1\<rparr>]\<rparr>\<rparr>"
  let ?w1 = "w\<lparr>next_id := Suc (Suc ?k)\<rparr>"
  let ?res1 = "ok (JObj [(''width'', JNum 1240), (''height'', JNum 1748)])"
  have h1: "handleCreateCanvas ev ((run_context ?r0)\<lparr>currentStep := step ?op1\<rparr>)
      (JObj [(''width'', JNum 1240), (''height'', JNum 1748), (''background_color'', JStr ''#FFFF00'')])
      (run_world ?r0) = (Inr ?res1, ?c1, ?w1)"
    using canvas_step [of ev sid sname ops_c7 w] by (simp add: start_def)
  let ?r1 = "?r0\<lparr>run_context := ?c1\<lparr>operationOutputs := (operationOutputs ?c1)(1 \<mapsto> op_output ?res1)\<rparr>,
          run_world := ?w1,
          sent := sent ?r0 @ [EXECUTION_PROGRESS 1 (totalSteps (run_context ?r0)) ''create_canvas''
                              (''Executing '' @ ''create_canvas'' @ ''...'')],
          invoked := invoked ?r0 @ [?op1]\<rparr>"
  have g1: "OPERATION_HANDLERS ext (operation ?op1) = Some handleCreateCanvas" by (simp add: reg)
  have p1: "resolveParameters (operationOutputs (run_context ?r0)) (parameters ?op1) =
      Inr (JObj [(''width'', JNum 1240), (''height'', JNum 1748), (''background_color'', JStr ''#FFFF00'')])"
    by (simp add: match_placeholder_def)
  have u1: "success ?res1" by (simp add: ok_def)
  have s1: "run_operations ev ext (?op1 # [?op2]) ?r0 = run_operations ev ext [?op2] ?r1"
    using run_step_ok [OF g1 p1 h1 u1, of "[?op2]"] by (simp add: ok_def)
  let ?c1' = "run_context ?r1"
  have fp: "font_palette (theme (?c1'\<lparr>currentStep := 2\<rparr>)) = []" by (simp add: initial_context_def)
  have cp: "color_palette (theme (?c1'\<lparr>currentStep := 2\<rparr>)) = [yellow_entry (generateId ev ''color'' ?k)]"
    by (simp add: yellow_entry_def)
  note t = text_step [OF fp cp, of ev ?w1]
  obtain res2 c2 w2 where h2: "handleAddTextLayer ev (?c1'\<lparr>currentStep := 2\<rparr>)
      (JObj [(''layer_name'', JStr ''title''), (''text'', JStr ''Hello''), (''anchor'', JStr ''center'')]) ?w1 =
      (Inr res2, c2, w2)"
    and res2: "res2 = ok (JObj [(''elementId'', JStr (generateId ev ''elem'' (?k + 5))),
                                 (''dataItemId'', JStr (generateId ev ''data'' (?k + 4)))])"
    and c2: "elements (template c2) = elements (template ?c1) @
        [Element (generateId ev ''elem'' (?k + 5)) T_data_item
        (Some (generateId ev ''data'' (?k + 4))) None None None
        (Some [(''position'', JStr ''absolute''), (''left'', JStr ''50%''), (''top'', JStr ''50%''),
               (''font'', JStr (generateId ev ''font'' (?k + 2))), (''font_size'', JStr ''16px''),
               (''color'', JStr (generateId ev ''color'' (?k + 3))),
               (''text_align'', JStr ''left''),
               (''transform'', JStr ''translate(calc(-50% + 0px), calc(-50% + 0px))'')]) None]"
      "canvas (template c2) = \<lparr>canvas_width = JNum 1240, canvas_height = JNum 1748\<rparr>"
      "color_palette (theme c2) = [yellow_entry (generateId ev ''color'' ?k),
         \<lparr>c_id = generateId ev ''color'' (?k + 3), c_name = ''color_2'',
           c_r = Num 0, c_g = Num 0, c_b = Num 0, c_a = Num 1\<rparr>]"
      "map font_name (font_palette (theme c2)) = [''Arial'']"
      "data_items (data c2) = [\<lparr>di_id = generateId ev ''data'' (?k + 4), di_type = D_text,
          display_name = JStr ''title'', content = Some (JStr ''Hello''), di_image_url = None\<rparr>]"
    using t by (simp add: Let_def initial_context_def eval_nat_numeral)
  have s2: "run_operations ev ext [?op2] ?r1 =
      run_operations ev ext []
       (?r1\<lparr>run_context :=
            (if op_output res2 \<noteq> JUndefined
             then c2\<lparr>operationOutputs := (operationOutputs c2)(step ?op2 \<mapsto> op_output res2)\<rparr>
             else c2),
          run_world := w2,
          sent := sent ?r1 @ [EXECUTION_PROGRESS (step ?op2) (totalSteps (run_context ?r1)) (operation ?op2)
                              (''Executing '' @ operation ?op2 @ ''...'')],
          invoked := invoked ?r1 @ [?op2]\<rparr>)"
  proof (rule run_step_ok [where h = handleAddTextLayer])
    show "OPERATION_HANDLERS ext (operation ?op2) = Some handleAddTextLayer" by (simp add: reg)
    show "resolveParameters (operationOutputs (run_context ?r1)) (parameters ?op2) =
      Inr (JObj [(''layer_name'', JStr ''title''), (''text'', JStr ''Hello''), (''anchor'', JStr ''center'')])"
      by (simp add: match_placeholder_def)
    show "handleAddTextLayer ev (run_context ?r1\<lparr>currentStep := step ?op2\<rparr>)
       (JObj [(''layer_name'', JStr ''title''), (''text'', JStr ''Hello''), (''anchor'', JStr ''center'')])
       (run_world ?r1) = (Inr res2, c2, w2)"
      using h2 by simp
    show "success res2" by (simp add: res2 ok_def)
  qed
  have e: "run_operations ev ext ops_c7 ?r0 = run_operations ev ext (?op1 # [?op2]) ?r0"
    by (simp add: ops_c7_def)
  show ?thesis
    unfolding e s1 s2 by (simp add: res2 ok_def c2 yellow_entry_def)
qed

text \<open>
  C7, as stated, fails in two places. The text layer registers its color, by default
  \<open>#000000\<close>, so the palette gains two colors, not one; and with the anchor \<open>center\<close> the
  transform carries the offsets: \<open>translate(calc(-50% + 0px), calc(-50% + 0px))\<close>, not
  \<open>translate(-50%, -50%)\<close>, which is the transform of a layer with no anchor and no
  coordinates.
\<close>

theorem C7_two_colors_and_calc_transform:
  "length (color_palette (theme (run_context
     (snd (run_operations env0 ext0 ops_c7 (start ''s'' ''S'' ops_c7 world0)))))) = 2 \<and>
   map (\<lambda>e. style_get (the (style e)) ''transform'')
     (elements (template (run_context
        (snd (run_operations env0 ext0 ops_c7 (start ''s'' ''S'' ops_c7 world0)))))) =
     [JUndefined, JStr ''translate(calc(-50% + 0px), calc(-50% + 0px))''] \<and>
   ''translate(calc(-50% + 0px), calc(-50% + 0px))'' \<noteq> ''translate(-50%, -50%)''"
  using scenario_run [of env0 ext0 "''s''" "''S''" world0]
  by (simp add: style_get_def)

text \<open>
  C7, amended: in every environment, executing \<open>create_canvas\<close> with width 1240, height 1748
  and background color \<open>#FFFF00\<close>, then \<open>add_text_layer\<close> with layer name \<open>title\<close>, text
  \<open>Hello\<close> and anchor \<open>center\<close>, succeeds and leaves a 1240 by 1748 canvas with exactly two
  elements: a rectangle shape of width and height 100% whose background color is the id of
  the yellow palette entry, then the text element referring to the new text item, with
  \<open>left: 50%\<close>, \<open>top: 50%\<close> and the transform
  \<open>translate(calc(-50% + 0px), calc(-50% + 0px))\<close>. The color palette has gained two colors,
  yellow and then the default text color black, and the font palette the font Arial. The
  resulting scene passes the final validation.
\<close>

theorem C7_canvas_then_text:
  "fst (run_operations ev ext ops_c7 (start sid sname ops_c7 w)) = Inr () \<and>
   canvas (template (run_context (snd (run_operations ev ext ops_c7 (start sid sname ops_c7 w))))) =
     \<lparr>canvas_width = JNum 1240, canvas_height = JNum 1748\<rparr> \<and>
   elements (template (run_context (snd (run_operations ev ext ops_c7 (start sid sname ops_c7 w))))) =
     [Element (generateId ev ''elem'' (next_id w + 1)) T_shape None (Some ''rectangle'') None None
        (Some [(''width'', JStr ''100%''), (''height'', JStr ''100%''),
               (''background_color'', JStr (generateId ev ''color'' (next_id w)))]) None,
      Element (generateId ev ''elem'' (next_id w + 5)) T_data_item
        (Some (generateId ev ''data'' (next_id w + 4))) None None None
        (Some [(''position'', JStr ''absolute''), (''left'', JStr ''50%''), (''top'', JStr ''50%''),
               (''font'', JStr (generateId ev ''font'' (next_id w + 2))), (''font_size'', JStr ''16px''),
               (''color'', JStr (generateId ev ''color'' (next_id w + 3))),
               (''text_align'', JStr ''left''),
               (''transform'', JStr ''translate(calc(-50% + 0px), calc(-50% + 0px))'')]) None] \<and>
   color_palette (theme (run_context (snd (run_operations ev ext ops_c7 (start sid sname ops_c7 w))))) =
     [\<lparr>c_id = generateId ev ''color'' (next_id w), c_name = ''color_1'',
       c_r = Num 255, c_g = Num 255, c_b = Num 0, c_a = Num 1\<rparr>,
      \<lparr>c_id = generateId ev ''color'' (next_id w + 3), c_name = ''color_2'',
       c_r = Num 0, c_g = Num 0, c_b = Num 0, c_a = Num 1\<rparr>] \<and>
   map font_name (font_palette (theme (run_context
       (snd (run_operations ev ext ops_c7 (start sid sname ops_c7 w)))))) = [''Arial''] \<and>
   data_items (data (run_context (snd (run_operations ev ext ops_c7 (start sid sname ops_c7 w))))) =
     [\<lparr>di_id = generateId ev ''data'' (next_id w + 4), di_type = D_text, display_name = JStr ''title'',
       content = Some (JStr ''Hello''), di_image_url = None\<rparr>] \<and>
   validateScene (run_context (snd (run_operations ev ext ops_c7 (start sid sname ops_c7 w)))) =
     Inr ()"
proof -
  note s = scenario_run [of ev ext sid sname w]
  have fonts: "length (font_palette (theme (run_context
       (snd (run_operations ev ext ops_c7 (start sid sname ops_c7 w)))))) = 1"
    using s [THEN conjunct2, THEN conjunct2, THEN conjunct2, THEN conjunct2, THEN conjunct1]
    by (metis length_map list.size(3) list.size(4) One_nat_def add.left_neutral)
  have valid: "validateScene (run_context
       (snd (run_operations ev ext ops_c7 (start sid sname ops_c7 w)))) = Inr ()"
    unfolding validateScene_def using s fonts by (simp add: generateId_def)
  from s valid show ?thesis by simp
qed

theorem C7_canvas_then_text_witness:
  "fst (run_operations env0 ext0 ops_c7 (start ''s'' ''S'' ops_c7 world0)) = Inr () \<and>
   canvas (template (run_context
     (snd (run_operations env0 ext0 ops_c7 (start ''s'' ''S'' ops_c7 world0))))) =
     \<lparr>canvas_width = JNum 1240, canvas_height = JNum 1748\<rparr> \<and>
   map element_type (elements (template (run_context
     (snd (run_operations env0 ext0 ops_c7 (start ''s'' ''S'' ops_c7 world0)))))) =
     [T_shape, T_data_item] \<and>
   map c_name (color_palette (theme (run_context
     (snd (run_operations env0 ext0 ops_c7 (start ''s'' ''S'' ops_c7 world0)))))) =
     [''color_1'', ''color_2''] \<and>
   validateScene (run_context
     (snd (run_operations env0 ext0 ops_c7 (start ''s'' ''S'' ops_c7 world0)))) = Inr ()"
  using C7_canvas_then_text [of env0 ext0 "''s''" "''S''" world0]
  by simp

subsection \<open>Abort on failure\<close>

lemma run_operations_append:
  "run_operations ev ext (xs @ ys) r =
     (case run_operations ev ext xs r of
        (Inl e, r1) \<Rightarrow> (Inl e, r1)
      | (Inr u, r1) \<Rightarrow> run_operations ev ext ys r1)"
proof (induction xs arbitrary: r)
  case Nil
  then show ?case by simp
next
  case (Cons opn xs)
  show ?case
    by (simp add: Cons.IH Let_def split: option.splits sum.splits prod.splits)
qed

lemma steps_after_failure_never_run:
  assumes "run_operations ev ext pre r = (Inr (), r1)"
    and "run_operations ev ext [opn] r1 = (Inl e, r2)"
  shows "run_operations ev ext (pre @ opn # post) r = (Inl e, r2)"
proof -
  have "run_operations ev ext (opn # post) r1 = run_operations ev ext ([opn] @ post) r1" by simp
  also have "\<dots> = (Inl e, r2)"
    unfolding run_operations_append [of ev ext "[opn]" post r1] using assms(2) by simp
  finally show ?thesis
    using assms(1) by (simp add: run_operations_append [of ev ext pre])
qed

lemma canvas_plain:
  "handleCreateCanvas ev c (JObj [(''width'', JNum wd), (''height'', JNum ht)]) w =
     (if wd = 0 \<or> ht = 0 then (Inl (ValidationError ''Canvas width and height are required''), c, w)
      else (Inr (ok (JObj [(''width'', JNum wd), (''height'', JNum ht)])),
            c\<lparr>template := (template c)\<lparr>canvas := \<lparr>canvas_width = JNum wd, canvas_height = JNum ht\<rparr>\<rparr>\<rparr>, w))"
  by (simp add: handleCreateCanvas_def get_prop_def Let_def)

lemma canvas_op:
  assumes "opn = \<lparr>step = s, operation = ''create_canvas'',
                   parameters = JObj [(''width'', JNum wd), (''height'', JNum ht)]\<rparr>"
    and "wd \<noteq> 0" "ht \<noteq> 0"
  shows "\<exists>r1. run_operations ev ext [opn] r = (Inr (), r1) \<and>
           sent r1 = sent r @ [progress (totalSteps (run_context r)) opn] \<and>
           invoked r1 = invoked r @ [opn] \<and> totalSteps (run_context r1) = totalSteps (run_context r)"
  using assms
  by (cases r) (simp add: OPERATION_HANDLERS_def canvas_plain Let_def ok_def progress_def)

lemma resize_op:
  assumes "opn = \<lparr>step = s, operation = ''resize_image'', parameters = JObj [(''width'', JNum 100)]\<rparr>"
  shows "\<exists>r1. run_operations ev ext [opn] r =
             (Inl (ValidationError ''resize_image operation is not implemented yet''), r1) \<and>
           sent r1 = sent r @ [progress (totalSteps (run_context r)) opn] \<and>
           invoked r1 = invoked r @ [opn]"
  using assms
  by (cases r) (simp add: OPERATION_HANDLERS_def handleResizeImage_def not_implemented_def Let_def progress_def)



lemma failed_run_report:
  assumes "run_operations ev ext ops (start sid sname ops w) = (Inl e, r)"
  shows "executeOperations ev ext sid sname ops w =
           r\<lparr>sent := sent r @ [EXECUTION_FAILED 0 ''unknown''
              (if error_message e \<noteq> [] then error_message e else ''Unknown error occurred'')]\<rparr>"
  using assms by (simp add: executeOperations_def start_def failure_unattributed)

text \<open>
  C1 holds in its first half and not in its second. A run of five steps whose third step
  fails invokes the handlers of steps 1 to 3 and no other, in every environment; but the
  failure it reports carries step 0 and the operation name \<open>unknown\<close>, not step 3 and
  \<open>resize_image\<close>. The \<open>catch\<close> block reads the step and the operation from fields of the
  error that nothing sets.
\<close>

theorem C1_failure_report_unattributed:
  "sent (executeOperations ev ext sid sname ops_c1 w) =
     [EXECUTION_PROGRESS 1 5 ''create_canvas'' ''Executing create_canvas...'',
      EXECUTION_PROGRESS 2 5 ''create_canvas'' ''Executing create_canvas...'',
      EXECUTION_PROGRESS 3 5 ''resize_image'' ''Executing resize_image...'',
      EXECUTION_FAILED 0 ''unknown'' ''resize_image operation is not implemented yet''] \<and>
   invoked (executeOperations ev ext sid sname ops_c1 w) = take 3 ops_c1 \<and>
   step (ops_c1 ! 2) = 3 \<and> operation (ops_c1 ! 2) = ''resize_image''"
proof -
  let ?op1 = "\<lparr>step = 1, operation = ''create_canvas'',
       parameters = JObj [(''width'', JNum 1240), (''height'', JNum 1748)]\<rparr>"
  let ?op2 = "\<lparr>step = 2, operation = ''create_canvas'',
       parameters = JObj [(''width'', JNum 800), (''height'', JNum 600)]\<rparr>"
  let ?op3 = "\<lparr>step = 3, operation = ''resize_image'', parameters = JObj [(''width'', JNum 100)]\<rparr>"
  let ?post = "[\<lparr>step = 4, operation = ''add_text_layer'',
       parameters = JObj [(''layer_name'', JStr ''title''), (''text'', JStr ''Hello'')]\<rparr>,
      \<lparr>step = 5, operation = ''crop_image'', parameters = JObj []\<rparr>]"
  define r0 where "r0 = start sid sname ops_c1 w"
  let ?e = "ValidationError ''resize_image operation is not implemented yet''"
  have t0: "totalSteps (run_context r0) = 5" "sent r0 = []" "invoked r0 = []"
    by (simp_all add: r0_def start_def initial_context_def ops_c1_def)
  obtain r1 where r1: "run_operations ev ext [?op1] r0 = (Inr (), r1)"
      "sent r1 = sent r0 @ [progress (totalSteps (run_context r0)) ?op1]"
      "invoked r1 = invoked r0 @ [?op1]" "totalSteps (run_context r1) = totalSteps (run_context r0)"
    using canvas_op [of ?op1 1 1240 1748 ev ext r0] by auto
  obtain r2 where r2: "run_operations ev ext [?op2] r1 = (Inr (), r2)"
      "sent r2 = sent r1 @ [progress (totalSteps (run_context r1)) ?op2]"
      "invoked r2 = invoked r1 @ [?op2]" "totalSteps (run_context r2) = totalSteps (run_context r1)"
    using canvas_op [of ?op2 2 800 600 ev ext r1] by auto
  obtain r3 where r3: "run_operations ev ext [?op3] r2 = (Inl ?e, r3)"
      "sent r3 = sent r2 @ [progress (totalSteps (run_context r2)) ?op3]"
      "invoked r3 = invoked r2 @ [?op3]"
    using resize_op [of ?op3 3 ev ext r2] by auto
  have "run_operations ev ext ([?op1] @ [?op2]) r0 = (Inr (), r2)"
    unfolding run_operations_append [of ev ext "[?op1]" "[?op2]" r0] r1(1) using r2(1) by simp
  then have pre: "run_operations ev ext [?op1, ?op2] r0 = (Inr (), r2)"
    by (simp only: append.simps)
  have "run_operations ev ext ([?op1, ?op2] @ ?op3 # ?post) r0 = (Inl ?e, r3)"
    using pre r3(1) by (rule steps_after_failure_never_run)
  then have run: "run_operations ev ext ops_c1 r0 = (Inl ?e, r3)"
    by (simp only: ops_c1_def append.simps)
  have ex: "executeOperations ev ext sid sname ops_c1 w = r3\<lparr>sent := sent r3 @ [failure ops_c1 ?e]\<rparr>"
    unfolding executeOperations_def start_def [symmetric] r0_def [symmetric] run by simp
  have s3: "sent r3 = [progress 5 ?op1, progress 5 ?op2, progress 5 ?op3]"
    by (simp add: r3 r2 r1 t0)
  have i3: "invoked r3 = [?op1, ?op2, ?op3]"
    by (simp add: r3 r2 r1 t0)
  have f: "failure ops_c1 ?e = EXECUTION_FAILED 0 ''unknown'' ''resize_image operation is not implemented yet''"
    by (simp add: failure_unattributed)
  show ?thesis
    unfolding ex by (simp add: s3 i3 f progress_def) (simp add: ops_c1_def)
qed

end
